theory Spec2Isabelle
  imports Complex_Main
begin

section \<open>Transition Engine (src/lib/email/status-transitions.ts)\<close>

text \<open>
  The two string-literal unions of the source become datatypes. The classification
  \<^verbatim>\<open>'OFFER'\<close> is written \<open>OFFER_EMAIL\<close>, since the status of the same name keeps
  the constructor \<open>OFFER\<close>.
\<close>

datatype EmailClassification =
    REJECTION
  | INTERVIEW_REQUEST
  | OFFER_EMAIL
  | SCREENING_INVITE
  | ASSESSMENT_REQUEST
  | GENERIC_UPDATE
  | UNRELATED

datatype ApplicationStatus =
    SAVED
  | APPLIED
  | SCREENING
  | INTERVIEWING
  | OFFER
  | ACCEPTED
  | REJECTED
  | WITHDRAWN
  | GHOSTED

text \<open>\<^verbatim>\<open>CLASSIFICATION_TO_STATUS\<close>: \<open>None\<close> is the source's \<^verbatim>\<open>null\<close>.\<close>

fun CLASSIFICATION_TO_STATUS :: "EmailClassification \<Rightarrow> ApplicationStatus option" where
  "CLASSIFICATION_TO_STATUS REJECTION = Some REJECTED"
| "CLASSIFICATION_TO_STATUS INTERVIEW_REQUEST = Some INTERVIEWING"
| "CLASSIFICATION_TO_STATUS OFFER_EMAIL = Some OFFER"
| "CLASSIFICATION_TO_STATUS SCREENING_INVITE = Some SCREENING"
| "CLASSIFICATION_TO_STATUS ASSESSMENT_REQUEST = Some SCREENING"
| "CLASSIFICATION_TO_STATUS GENERIC_UPDATE = None"
| "CLASSIFICATION_TO_STATUS UNRELATED = None"

text \<open>\<^verbatim>\<open>VALID_TRANSITIONS\<close>: from a status to the statuses it may move to.\<close>

fun VALID_TRANSITIONS :: "ApplicationStatus \<Rightarrow> ApplicationStatus list" where
  "VALID_TRANSITIONS SAVED = [APPLIED, REJECTED, WITHDRAWN]"
| "VALID_TRANSITIONS APPLIED = [SCREENING, INTERVIEWING, OFFER, REJECTED, WITHDRAWN, GHOSTED]"
| "VALID_TRANSITIONS SCREENING = [INTERVIEWING, OFFER, REJECTED, WITHDRAWN, GHOSTED]"
| "VALID_TRANSITIONS INTERVIEWING = [OFFER, REJECTED, WITHDRAWN, GHOSTED]"
| "VALID_TRANSITIONS OFFER = [ACCEPTED, REJECTED, WITHDRAWN]"
| "VALID_TRANSITIONS ACCEPTED = []"
| "VALID_TRANSITIONS REJECTED = []"
| "VALID_TRANSITIONS WITHDRAWN = []"
| "VALID_TRANSITIONS GHOSTED = [SCREENING, INTERVIEWING, REJECTED]"

text \<open>
  \<^verbatim>\<open>CONFIDENCE_THRESHOLDS\<close>. A confidence is a JavaScript number; the engine only
  compares it with these constants, so it is modelled as a real number (the order of
  finite doubles is the order of the reals they denote).
\<close>

definition AUTO_UPDATE :: real where
  "AUTO_UPDATE = 0.9"

definition FLAG_FOR_REVIEW :: real where
  "FLAG_FOR_REVIEW = 0.7"

definition MANUAL_ONLY :: real where
  "MANUAL_ONLY = 0.0"

text \<open>
  The \<^verbatim>\<open>reason\<close> of a result is a template string; it is kept as the template that
  was chosen together with the values interpolated into it.
\<close>

datatype Reason =
    DoesNotTrigger EmailClassification
  | InvalidTransition ApplicationStatus ApplicationStatus
  | BelowThreshold real
  | AutoUpdating ApplicationStatus real

record TransitionResult =
  shouldUpdate :: bool
  newStatus :: "ApplicationStatus option"
  reason :: Reason
  needsReview :: bool

definition getStatusTransition ::
  "EmailClassification \<Rightarrow> real \<Rightarrow> ApplicationStatus \<Rightarrow> TransitionResult" where
  "getStatusTransition classification confidence currentStatus =
     (case CLASSIFICATION_TO_STATUS classification of
        None \<Rightarrow>
          \<lparr>shouldUpdate = False, newStatus = None,
           reason = DoesNotTrigger classification, needsReview = False\<rparr>
      | Some targetStatus \<Rightarrow>
          (let allowedTransitions = VALID_TRANSITIONS currentStatus in
           if targetStatus \<notin> set allowedTransitions then
             \<lparr>shouldUpdate = False, newStatus = None,
              reason = InvalidTransition currentStatus targetStatus, needsReview = True\<rparr>
           else if confidence < FLAG_FOR_REVIEW then
             \<lparr>shouldUpdate = False, newStatus = Some targetStatus,
              reason = BelowThreshold confidence, needsReview = True\<rparr>
           else
             \<lparr>shouldUpdate = True, newStatus = Some targetStatus,
              reason = AutoUpdating targetStatus confidence,
              needsReview = (confidence < AUTO_UPDATE)\<rparr>))"

text \<open>\<^verbatim>\<open>getTriggerType\<close>, with the trigger types a history row can carry.\<close>

datatype TriggerType = manual | email_auto | email_manual | extension

definition getTriggerType :: "real \<Rightarrow> TriggerType" where
  "getTriggerType confidence =
     (if confidence \<ge> FLAG_FOR_REVIEW then email_auto else email_manual)"

section \<open>Strings and regular expressions\<close>

text \<open>
  A JavaScript string is a sequence of UTF-16 code units. The model's strings are lists
  of 8-bit characters, read as the code units 0 to 255: the texts of the model are the
  ISO-8859-1 texts. The string methods the source calls are defined on them as
  ECMAScript defines them on such code units.
\<close>

definition isWhiteSpace :: "char \<Rightarrow> bool" where
  "isWhiteSpace c =
     (c \<in> set [CHR 0x09, CHR 0x0A, CHR 0x0B, CHR 0x0C, CHR 0x0D, CHR 0x20, CHR 0xA0])"

definition isLineTerminator :: "char \<Rightarrow> bool" where
  "isLineTerminator c = (c \<in> set [CHR 0x0A, CHR 0x0D])"

definition isWordChar :: "char \<Rightarrow> bool" where
  "isWordChar c =
     (let n = (of_char c :: nat) in
      (97 \<le> n \<and> n \<le> 122) \<or> (65 \<le> n \<and> n \<le> 90) \<or> (48 \<le> n \<and> n \<le> 57) \<or> n = 95)"

text \<open>
  \<^verbatim>\<open>toLowerCase\<close>: the letters A to Z and the capital letters of the upper half
  (0xC0 to 0xDE without the multiplication sign 0xD7) move up by 32, which sets bit 5.
\<close>

fun toLowerCaseChar :: "char \<Rightarrow> char" where
  "toLowerCaseChar (Char b0 b1 b2 b3 b4 b5 b6 b7) =
     (let n = (of_char (Char b0 b1 b2 b3 b4 b5 b6 b7) :: nat) in
      if (65 \<le> n \<and> n \<le> 90) \<or> (192 \<le> n \<and> n \<le> 222 \<and> n \<noteq> 215)
      then Char b0 b1 b2 b3 b4 True b6 b7 else Char b0 b1 b2 b3 b4 b5 b6 b7)"

definition toLowerCase :: "string \<Rightarrow> string" where
  "toLowerCase s = map toLowerCaseChar s"

fun trimStart :: "string \<Rightarrow> string" where
  "trimStart [] = []"
| "trimStart (c # s) = (if isWhiteSpace c then trimStart s else c # s)"

definition trim :: "string \<Rightarrow> string" where
  "trim s = rev (trimStart (rev (trimStart s)))"

fun startsWith :: "string \<Rightarrow> string \<Rightarrow> bool" where
  "startsWith s [] = True"
| "startsWith [] (c # t) = False"
| "startsWith (d # s) (c # t) = (d = c \<and> startsWith s t)"

text \<open>\<^verbatim>\<open>s.includes(t)\<close>: \<open>t\<close> occurs in \<open>s\<close> as a run of consecutive characters.\<close>

fun str_includes :: "string \<Rightarrow> string \<Rightarrow> bool" where
  "str_includes [] t = startsWith [] t"
| "str_includes (d # s) t = (startsWith (d # s) t \<or> str_includes s t)"

text \<open>\<^verbatim>\<open>s.split(sep)\<close> for a separator of one character; the result is never empty.\<close>

fun split :: "string \<Rightarrow> char \<Rightarrow> string list" where
  "split [] sep = [[]]"
| "split (c # s) sep =
     (if c = sep then [] # split s sep
      else (case split s sep of p # ps \<Rightarrow> (c # p) # ps | [] \<Rightarrow> [[c]]))"

text \<open>
  A value of type \<^verbatim>\<open>string | null\<close> in a condition: \<^verbatim>\<open>null\<close> and the empty
  string are falsy. \<open>truthy v\<close> is the string when the condition holds.
\<close>

definition truthy :: "string option \<Rightarrow> string option" where
  "truthy v = (case v of None \<Rightarrow> None | Some s \<Rightarrow> if s = [] then None else Some s)"

subsection \<open>Regular expressions\<close>

text \<open>
  The patterns of the source use literals, character classes, \<^verbatim>\<open>.\<close>, \<^verbatim>\<open>\s\<close>,
  greedy and lazy repetition of a single character class, alternation, one capture
  group, \<^verbatim>\<open>^\<close>, \<^verbatim>\<open>$\<close> and \<^verbatim>\<open>\b\<close>. A pattern is a term of \<open>regex\<close>; matching
  follows the backtracking order of ECMAScript: \<open>rmatch\<close> lists every way a pattern
  matches at a position, in the order in which a backtracking matcher tries them, so
  the head of the list is the match that JavaScript reports.

  A matcher state is the text already passed (reversed, so its head is the character
  before the position), the text still ahead, and the text of capture group 1.
\<close>

datatype cclass = Dot | Space | OneOf "char list" | NoneOf "char list"

datatype regex =
    Lit string
  | Cls cclass
  | Star cclass
  | StarLazy cclass
  | Seq "regex list"
  | Alt "regex list"
  | Group regex
  | Bol
  | Eol
  | WordBoundary

definition Plus :: "cclass \<Rightarrow> regex" where
  "Plus k = Seq [Cls k, Star k]"

definition PlusLazy :: "cclass \<Rightarrow> regex" where
  "PlusLazy k = Seq [Cls k, StarLazy k]"

definition sameChar :: "bool \<Rightarrow> char \<Rightarrow> char \<Rightarrow> bool" where
  "sameChar ignoreCase c d =
     (if ignoreCase then toLowerCaseChar c = toLowerCaseChar d else c = d)"

fun inClass :: "bool \<Rightarrow> cclass \<Rightarrow> char \<Rightarrow> bool" where
  "inClass ignoreCase Dot c = (\<not> isLineTerminator c)"
| "inClass ignoreCase Space c = isWhiteSpace c"
| "inClass ignoreCase (OneOf cs) c = (\<exists>d \<in> set cs. sameChar ignoreCase d c)"
| "inClass ignoreCase (NoneOf cs) c = (\<not> (\<exists>d \<in> set cs. sameChar ignoreCase d c))"

type_synonym mstate = "string \<times> string \<times> string option"

fun matchLit :: "bool \<Rightarrow> string \<Rightarrow> string \<Rightarrow> string \<Rightarrow> (string \<times> string) option" where
  "matchLit ignoreCase [] seen rest = Some (seen, rest)"
| "matchLit ignoreCase (d # l) seen [] = None"
| "matchLit ignoreCase (d # l) seen (c # rest) =
     (if sameChar ignoreCase d c then matchLit ignoreCase l (c # seen) rest else None)"

text \<open>Greedy repetition tries the longest run first, lazy repetition the shortest.\<close>

fun matchStar :: "bool \<Rightarrow> cclass \<Rightarrow> string \<Rightarrow> string \<Rightarrow> (string \<times> string) list" where
  "matchStar ignoreCase k seen [] = [(seen, [])]"
| "matchStar ignoreCase k seen (c # rest) =
     (if inClass ignoreCase k c
      then matchStar ignoreCase k (c # seen) rest @ [(seen, c # rest)]
      else [(seen, c # rest)])"

fun matchStarLazy :: "bool \<Rightarrow> cclass \<Rightarrow> string \<Rightarrow> string \<Rightarrow> (string \<times> string) list" where
  "matchStarLazy ignoreCase k seen [] = [(seen, [])]"
| "matchStarLazy ignoreCase k seen (c # rest) =
     (if inClass ignoreCase k c
      then (seen, c # rest) # matchStarLazy ignoreCase k (c # seen) rest
      else [(seen, c # rest)])"

fun rmatch :: "bool \<Rightarrow> regex \<Rightarrow> mstate \<Rightarrow> mstate list"
  and rmatchSeq :: "bool \<Rightarrow> regex list \<Rightarrow> mstate \<Rightarrow> mstate list"
  and rmatchAlt :: "bool \<Rightarrow> regex list \<Rightarrow> mstate \<Rightarrow> mstate list" where
  "rmatch i (Lit l) (seen, rest, cap) =
     (case matchLit i l seen rest of
        None \<Rightarrow> []
      | Some (seen', rest') \<Rightarrow> [(seen', rest', cap)])"
| "rmatch i (Cls k) (seen, rest, cap) =
     (case rest of
        [] \<Rightarrow> []
      | c # rest' \<Rightarrow> (if inClass i k c then [(c # seen, rest', cap)] else []))"
| "rmatch i (Star k) (seen, rest, cap) =
     map (\<lambda>(seen', rest'). (seen', rest', cap)) (matchStar i k seen rest)"
| "rmatch i (StarLazy k) (seen, rest, cap) =
     map (\<lambda>(seen', rest'). (seen', rest', cap)) (matchStarLazy i k seen rest)"
| "rmatch i (Seq rs) st = rmatchSeq i rs st"
| "rmatch i (Alt rs) st = rmatchAlt i rs st"
| "rmatch i (Group r) (seen, rest, cap) =
     map (\<lambda>(seen', rest', cap').
            (seen', rest', Some (rev (take (length seen' - length seen) seen'))))
         (rmatch i r (seen, rest, cap))"
| "rmatch i Bol (seen, rest, cap) = (if seen = [] then [(seen, rest, cap)] else [])"
| "rmatch i Eol (seen, rest, cap) = (if rest = [] then [(seen, rest, cap)] else [])"
| "rmatch i WordBoundary (seen, rest, cap) =
     (if (case seen of [] \<Rightarrow> False | c # _ \<Rightarrow> isWordChar c)
         \<noteq> (case rest of [] \<Rightarrow> False | c # _ \<Rightarrow> isWordChar c)
      then [(seen, rest, cap)] else [])"
| "rmatchSeq i [] st = [st]"
| "rmatchSeq i (r # rs) st = concat (map (rmatchSeq i rs) (rmatch i r st))"
| "rmatchAlt i [] st = []"
| "rmatchAlt i (r # rs) st = rmatch i r st @ rmatchAlt i rs st"

text \<open>
  \<open>search\<close> is the scan of \<^verbatim>\<open>RegExp.prototype.exec\<close>: the first position, from the
  left, at which the pattern matches. \<open>match1 i r s\<close> is \<^verbatim>\<open>s.match(r)\<close> for a
  pattern without the \<^verbatim>\<open>g\<close> flag, reduced to what the source reads from it: \<open>None\<close>
  when there is no match, otherwise the text of group 1. In every pattern of the source
  that has a group, the group lies on every path through the pattern, so it is never
  \<^verbatim>\<open>undefined\<close> in a match; \<open>match1\<close> gives the empty string for a pattern without
  a group.
\<close>

fun search :: "bool \<Rightarrow> regex \<Rightarrow> string \<Rightarrow> string \<Rightarrow> mstate option" where
  "search i r seen rest =
     (case rmatch i r (seen, rest, None) of
        st # _ \<Rightarrow> Some st
      | [] \<Rightarrow> (case rest of [] \<Rightarrow> None | c # rest' \<Rightarrow> search i r (c # seen) rest'))"

definition match1 :: "bool \<Rightarrow> regex \<Rightarrow> string \<Rightarrow> string option" where
  "match1 i r s =
     (case search i r [] s of
        None \<Rightarrow> None
      | Some (seen, rest, cap) \<Rightarrow> Some (case cap of None \<Rightarrow> [] | Some g \<Rightarrow> g))"

text \<open>
  \<^verbatim>\<open>s.replace(r, replacement)\<close> for a pattern with the \<^verbatim>\<open>g\<close> flag and a
  replacement without \<^verbatim>\<open>$\<close>: every match, from the left, is replaced; after an
  empty match the scan moves on by one character.
\<close>

function replaceAll :: "bool \<Rightarrow> regex \<Rightarrow> string \<Rightarrow> string \<Rightarrow> string \<Rightarrow> string" where
  "replaceAll i r replacement seen rest =
     (case rmatch i r (seen, rest, None) of
        (seen', rest', cap) # _ \<Rightarrow>
          (if length rest' < length rest
           then replacement @ replaceAll i r replacement seen' rest'
           else replacement @
             (case rest of [] \<Rightarrow> []
              | c # rest'' \<Rightarrow> c # replaceAll i r replacement (c # seen) rest''))
      | [] \<Rightarrow>
          (case rest of [] \<Rightarrow> []
           | c # rest'' \<Rightarrow> c # replaceAll i r replacement (c # seen) rest''))"
  by pat_completeness auto
termination
  by (relation "measure (\<lambda>(i, r, replacement, seen, rest). length rest)") auto

section \<open>ATS patterns (src/lib/email/ats-patterns.ts)\<close>

text \<open>
  What a call can throw: a \<^verbatim>\<open>RangeError\<close> of the language, a failure of the model
  call (timeout, provider error, output that does not fit the schema), or an error of
  the repository.
\<close>

datatype error = RangeError string | ModelCallError string | RepositoryError string

text \<open>
  A \<^verbatim>\<open>Date\<close> holds a time value or is an invalid date (as \<^verbatim>\<open>new Date(s)\<close> is when
  \<open>s\<close> is no date). The pipeline only renders a date with \<^verbatim>\<open>toISOString()\<close>, so a
  valid date is kept as that rendering; on an invalid date \<^verbatim>\<open>toISOString()\<close> throws
  a \<^verbatim>\<open>RangeError\<close>.
\<close>

datatype Date = ValidDate string | InvalidDate

fun toISOString :: "Date \<Rightarrow> error + string" where
  "toISOString (ValidDate isoText) = Inr isoText"
| "toISOString InvalidDate = Inl (RangeError ''Invalid time value'')"

text \<open>
  \<^verbatim>\<open>ParsedEmail\<close>. The sender field \<^verbatim>\<open>from\<close> is called \<open>email_from\<close>. The optional
  \<^verbatim>\<open>fromName\<close> is an option.
\<close>

record ParsedEmail =
  email_from :: string
  fromName :: "string option"
  subject :: string
  body :: string
  receivedAt :: Date

text \<open>
  The class \<^verbatim>\<open>[-\<close>en dash\<^verbatim>\<open>]\<close> of the source's patterns: the en dash is the code unit
  0x2013, which no string of the model contains, so on these strings the class is the
  hyphen alone. \<open>dashOrColon\<close> is the same class with the colon added.
\<close>

definition dash :: cclass where
  "dash = OneOf ''-''"

definition dashOrColon :: cclass where
  "dashOrColon = OneOf ''-:''"

text \<open>The tail \<^verbatim>\<open>(?:\s*[-\<close>en dash\<^verbatim>\<open>]|$)\<close> shared by several patterns.\<close>

definition dashOrEnd :: regex where
  "dashOrEnd = Alt [Seq [Star Space, Cls dash], Eol]"

text \<open>
  The parsers of \<^verbatim>\<open>ATS_PATTERNS\<close>, one per provider. All their patterns carry the
  \<^verbatim>\<open>i\<close> flag. A parser returns the trimmed group of the first pattern that matches,
  also when that text is empty.
\<close>

definition greenhouse_io :: "ParsedEmail \<Rightarrow> string option" where
  "greenhouse_io email =
     (case match1 True
             (Seq [Alt [Lit ''application to'', Lit ''applying to'', Lit ''applied to''],
                   Plus Space, Group (PlusLazy Dot), dashOrEnd])
             (subject email) of
        Some g \<Rightarrow> Some (trim g)
      | None \<Rightarrow>
          (case match1 True
                  (Seq [Lit ''interest in'', Plus Space, Group (PlusLazy Dot),
                        Alt [Lit ''.'', Seq [Plus Space, Lit ''and'']]])
                  (body email) of
             Some g \<Rightarrow> Some (trim g)
           | None \<Rightarrow> None))"

definition lever_co :: "ParsedEmail \<Rightarrow> string option" where
  "lever_co email =
     (case (case fromName email of
              None \<Rightarrow> None
            | Some n \<Rightarrow>
                match1 True
                  (Seq [Group (PlusLazy Dot), Plus Space, Alt [Lit ''via'', Lit ''through''],
                        Plus Space, Lit ''Lever''])
                  n) of
        Some g \<Rightarrow> Some (trim g)
      | None \<Rightarrow>
          (case match1 True
                  (Seq [Bol, Group (PlusLazy Dot), Star Space, Cls dash, Star Space,
                        Plus Dot, Lit ''application''])
                  (subject email) of
             Some g \<Rightarrow> Some (trim g)
           | None \<Rightarrow> None))"

definition ashbyhq_com :: "ParsedEmail \<Rightarrow> string option" where
  "ashbyhq_com email =
     (case match1 True
             (Seq [Bol, Group (PlusLazy Dot), Lit '':'', Star Space, Plus Dot,
                   Alt [Lit ''application'', Lit ''update'']])
             (subject email) of
        Some g \<Rightarrow> Some (trim g)
      | None \<Rightarrow> None)"

definition jobvite_com :: "ParsedEmail \<Rightarrow> string option" where
  "jobvite_com email =
     (case match1 True
             (Seq [Lit ''application'', Plus Space, Alt [Lit ''with'', Lit ''to'', Lit ''at''],
                   Plus Space, Group (PlusLazy Dot), dashOrEnd])
             (subject email) of
        Some g \<Rightarrow> Some (trim g)
      | None \<Rightarrow> None)"

definition workday_com :: "ParsedEmail \<Rightarrow> string option" where
  "workday_com email =
     (case match1 True
             (Seq [Bol, Group (PlusLazy Dot), Lit '':'', Star Space, Lit ''your'', Plus Space,
                   Lit ''application''])
             (subject email) of
        Some g \<Rightarrow> Some (trim g)
      | None \<Rightarrow> None)"

definition myworkdayjobs_com :: "ParsedEmail \<Rightarrow> string option" where
  "myworkdayjobs_com email =
     (case match1 True
             (Seq [Bol, Group (PlusLazy Dot), Lit '':'', Star Space, Lit ''your'', Plus Space,
                   Lit ''application''])
             (subject email) of
        Some g \<Rightarrow> Some (trim g)
      | None \<Rightarrow> None)"

definition icims_com :: "ParsedEmail \<Rightarrow> string option" where
  "icims_com email =
     (case match1 True
             (Seq [Lit ''applying'', Plus Space, Lit ''to'', Plus Space, Group (PlusLazy Dot),
                   dashOrEnd])
             (subject email) of
        Some g \<Rightarrow> Some (trim g)
      | None \<Rightarrow> None)"

definition smartrecruiters_com :: "ParsedEmail \<Rightarrow> string option" where
  "smartrecruiters_com email =
     (case match1 True
             (Seq [Lit ''application'', Plus Space, Lit ''at'', Plus Space, Group (PlusLazy Dot),
                   dashOrEnd])
             (subject email) of
        Some g \<Rightarrow> Some (trim g)
      | None \<Rightarrow> None)"

definition linkedin_com :: "ParsedEmail \<Rightarrow> string option" where
  "linkedin_com email =
     (case match1 True
             (Seq [Alt [Lit ''sent to'', Lit ''applied to'',
                        Seq [Lit ''application'', Star Dot, Lit ''to'']],
                   Plus Space, Group (PlusLazy Dot), dashOrEnd])
             (subject email) of
        Some g \<Rightarrow> Some (trim g)
      | None \<Rightarrow> None)"

text \<open>\<^verbatim>\<open>ATS_PATTERNS\<close>, in the order of its keys (the order of \<^verbatim>\<open>Object.entries\<close>).\<close>

definition ATS_PATTERNS :: "(string \<times> (ParsedEmail \<Rightarrow> string option)) list" where
  "ATS_PATTERNS =
     [(''greenhouse.io'', greenhouse_io),
      (''lever.co'', lever_co),
      (''ashbyhq.com'', ashbyhq_com),
      (''jobvite.com'', jobvite_com),
      (''workday.com'', workday_com),
      (''myworkdayjobs.com'', myworkdayjobs_com),
      (''icims.com'', icims_com),
      (''smartrecruiters.com'', smartrecruiters_com),
      (''linkedin.com'', linkedin_com)]"

text \<open>\<^verbatim>\<open>extractDomain\<close>: the pattern \<^verbatim>\<open>/@([^@]+)$/\<close> has no flag.\<close>

definition extractDomain :: "string \<Rightarrow> string" where
  "extractDomain email =
     (case match1 False (Seq [Lit ''@'', Group (Plus (NoneOf ''@'')), Eol]) email of
        Some g \<Rightarrow> toLowerCase g
      | None \<Rightarrow> [])"

definition isATSEmail :: "ParsedEmail \<Rightarrow> bool" where
  "isATSEmail email =
     (let domain = extractDomain (email_from email)
      in \<exists>ats \<in> set (map fst ATS_PATTERNS). str_includes domain ats)"

text \<open>
  \<^verbatim>\<open>extractCompanyFromATS\<close>: the loop over the entries returns the first company that
  is truthy, so an empty result of a parser lets the loop go on.
\<close>

fun extractCompanyLoop ::
  "(string \<times> (ParsedEmail \<Rightarrow> string option)) list \<Rightarrow> string \<Rightarrow> ParsedEmail \<Rightarrow> string option" where
  "extractCompanyLoop [] domain email = None"
| "extractCompanyLoop ((atsDomain, parser) # entries) domain email =
     (if str_includes domain atsDomain
      then (case truthy (parser email) of
              Some company \<Rightarrow> Some company
            | None \<Rightarrow> extractCompanyLoop entries domain email)
      else extractCompanyLoop entries domain email)"

definition extractCompanyFromATS :: "ParsedEmail \<Rightarrow> string option" where
  "extractCompanyFromATS email =
     (let domain = extractDomain (email_from email)
      in extractCompanyLoop ATS_PATTERNS domain email)"

text \<open>
  \<^verbatim>\<open>normalizeCompanyName\<close>. In the first pattern the alternatives are tried in the
  order written, so \<^verbatim>\<open>corp\<close> wins over \<^verbatim>\<open>corporation\<close>.
\<close>

definition normalizeCompanyName :: "string \<Rightarrow> string" where
  "normalizeCompanyName name =
     trim
       (replaceAll False (Plus Space) '' ''  []
          (replaceAll True
             (Alt [Cls (OneOf '',.''), Lit ''inc'', Lit ''llc'', Lit ''corp'',
                   Lit ''corporation'', Lit ''ltd'', Lit ''limited'',
                   Seq [Lit ''co'', WordBoundary]])
             [] [] (toLowerCase name)))"

section \<open>The repository (supabase/migrations, the Supabase client)\<close>

text \<open>
  The tables of the migrations, with the columns the pipeline reads or writes. A
  \<^verbatim>\<open>UUID\<close> is a natural number and \<^verbatim>\<open>uuid_generate_v4()\<close> a counter kept in the
  database, so that every generated identifier is new. A \<^verbatim>\<open>TIMESTAMPTZ\<close> is a
  natural number; \<^verbatim>\<open>NOW()\<close> is handed to the operation that writes.
\<close>

type_synonym uuid = nat

record application =
  app_id :: uuid
  app_user_id :: uuid
  app_job_title :: string
  app_company_name :: string
  app_status :: ApplicationStatus
  app_created_at :: nat

record ExtractedData =
  interviewDate :: "string option"
  interviewTime :: "string option"
  deadline :: "string option"
  nextSteps :: "string option"

record application_email =
  ae_id :: uuid
  ae_user_id :: uuid
  ae_application_id :: "uuid option"
  ae_from_address :: string
  ae_from_name :: "string option"
  ae_subject :: string
  ae_body_preview :: string
  ae_received_at :: string
  ae_classification :: EmailClassification
  ae_classification_confidence :: real
  ae_extracted_data :: ExtractedData

record unmatched_email =
  ue_id :: uuid
  ue_user_id :: uuid
  ue_email_id :: uuid
  ue_suggested_application_ids :: "uuid list"
  ue_linked_application_id :: "uuid option"
  ue_status :: string

record status_history_row =
  sh_application_id :: uuid
  sh_from_status :: "ApplicationStatus option"
  sh_to_status :: ApplicationStatus
  sh_trigger_type :: TriggerType
  sh_trigger_email_id :: "uuid option"
  sh_created_at :: nat

record database =
  users :: "uuid list"
  applications :: "application list"
  application_emails :: "application_email list"
  unmatched_emails :: "unmatched_email list"
  status_history :: "status_history_row list"
  next_uuid :: uuid

text \<open>
  Modelled from the spec: the application repository's filter by company name
  (``filtered by company-name substring (case-insensitive)''), which the source calls
  as \<^verbatim>\<open>.ilike('company_name', pattern)\<close>; the client library and the database are
  not under src/. \<open>ilike text pattern\<close> is the \<^verbatim>\<open>ILIKE\<close> of SQL: \<^verbatim>\<open>%\<close> stands for
  any run of characters, \<^verbatim>\<open>_\<close> for any one character, a backslash takes the next
  character literally, and letters match without regard to case. A pattern that ends
  in a lone backslash is an error of the query, which the callers read as no row.
\<close>

fun ilike :: "string \<Rightarrow> string \<Rightarrow> bool" where
  "ilike t [] = (t = [])"
| "ilike t (p # ps) =
     (if p = CHR ''%'' then
        (ilike t ps \<or> (case t of [] \<Rightarrow> False | c # t' \<Rightarrow> ilike t' (p # ps)))
      else if p = CHR ''_'' then
        (case t of [] \<Rightarrow> False | c # t' \<Rightarrow> ilike t' ps)
      else if p = CHR 0x5C then
        (case ps of
           [] \<Rightarrow> False
         | q # qs \<Rightarrow>
             (case t of [] \<Rightarrow> False | c # t' \<Rightarrow> sameChar True q c \<and> ilike t' qs))
      else
        (case t of [] \<Rightarrow> False | c # t' \<Rightarrow> sameChar True p c \<and> ilike t' ps))"

text \<open>
  Modelled from the spec: ``ordered by recency'', the source's
  \<^verbatim>\<open>.order('created_at', { ascending: false })\<close>. Rows with the same \<^verbatim>\<open>created_at\<close>
  come in some order the database chooses; the model fixes one.
\<close>

definition order_created_at_desc :: "application list \<Rightarrow> application list" where
  "order_created_at_desc rows = rev (sort_key app_created_at rows)"

text \<open>
  \<^verbatim>\<open>.single()\<close>: the row when the result has exactly one row, \<^verbatim>\<open>null\<close> data (and
  an error) otherwise.
\<close>

fun single :: "'a list \<Rightarrow> 'a option" where
  "single [r] = Some r"
| "single rows = None"

section \<open>Matcher (src/lib/email/matching.ts)\<close>

text \<open>The match types \<^verbatim>\<open>'ats' | 'domain' | 'fuzzy' | 'none'\<close>, each with the prefix \<open>match_\<close>.\<close>

datatype MatchType = match_ats | match_domain | match_fuzzy | match_none

record MatchResult =
  applicationId :: "uuid option"
  companyName :: "string option"
  match_confidence :: real
  matchType :: MatchType

text \<open>
  The query shared by the three lookups:
  \<^verbatim>\<open>.select('id, company_name').eq('user_id', userId).ilike('company_name', pattern)\<close>
  \<^verbatim>\<open>.order('created_at', { ascending: false }).limit(1).single()\<close>. Its data is the
  pair \<open>(id, company_name)\<close> of the row found; the error is ignored by every caller.
\<close>

definition selectByCompanyName :: "database \<Rightarrow> uuid \<Rightarrow> string \<Rightarrow> (uuid \<times> string) option" where
  "selectByCompanyName db userId pattern =
     map_option (\<lambda>a. (app_id a, app_company_name a))
       (single (take 1 (order_created_at_desc
          (filter (\<lambda>a. app_user_id a = userId \<and> ilike (app_company_name a) pattern)
             (applications db)))))"

definition findApplicationByCompanyName ::
  "database \<Rightarrow> uuid \<Rightarrow> string \<Rightarrow> (uuid \<times> string) option" where
  "findApplicationByCompanyName db userId name =
     (let normalized = normalizeCompanyName name in
      case selectByCompanyName db userId name of
        Some exactMatch \<Rightarrow> Some exactMatch
      | None \<Rightarrow> selectByCompanyName db userId (''%'' @ normalized @ ''%''))"

definition atsDomains :: "string list" where
  "atsDomains =
     [''greenhouse.io'', ''lever.co'', ''ashbyhq.com'', ''jobvite.com'', ''workday.com'',
      ''icims.com'']"

text \<open>
  \<open>companySlugOf\<close> is the computation of \<^verbatim>\<open>companySlug\<close> from the parts of the
  domain; \<open>split\<close> never gives an empty list, so the first and the last-but-one part
  exist where they are read.
\<close>

definition companySlugOf :: "string list \<Rightarrow> string" where
  "companySlugOf parts =
     (let companySlug =
            (if length parts \<ge> 2 then parts ! (length parts - 2) else parts ! 0)
      in if parts ! 0 \<in> set [''careers'', ''jobs'', ''recruiting'', ''talent'', ''hr'']
            \<and> length parts \<ge> 3
         then parts ! (length parts - 2)
         else companySlug)"

definition findApplicationByDomain ::
  "database \<Rightarrow> uuid \<Rightarrow> string \<Rightarrow> (uuid \<times> string) option" where
  "findApplicationByDomain db userId domain =
     (if \<exists>ats \<in> set atsDomains. str_includes domain ats then None
      else
        (let parts = split domain CHR ''.'';
             companySlug = companySlugOf parts
         in selectByCompanyName db userId (''%'' @ companySlug @ ''%'')))"

text \<open>
  \<^verbatim>\<open>extractCompanyFromSubject\<close>: the three patterns in order; a pattern whose group
  is empty, or whose trimmed group is rejected by the filter, lets the loop go on.
\<close>

definition subjectPatterns :: "regex list" where
  "subjectPatterns =
     [Seq [Alt [Lit ''from'', Lit ''at'', Lit ''with''], Plus Space, Group (PlusLazy Dot),
           Alt [Seq [Star Space, Cls dashOrColon], Eol]],
      Seq [Bol, Group (PlusLazy Dot), Seq [Star Space, Cls dashOrColon], Star Space,
           Alt [Lit ''application'', Lit ''interview'', Lit ''offer'']],
      Seq [Alt [Lit ''application'', Lit ''interview'', Lit ''offer''], Star Dot,
           Alt [Lit ''at'', Lit ''with'', Lit ''from''], Plus Space, Group (PlusLazy Dot),
           dashOrEnd]]"

fun extractCompanyFromSubjectLoop :: "regex list \<Rightarrow> string \<Rightarrow> string option" where
  "extractCompanyFromSubjectLoop [] subj = None"
| "extractCompanyFromSubjectLoop (pattern # patterns) subj =
     (case truthy (match1 True pattern subj) of
        None \<Rightarrow> extractCompanyFromSubjectLoop patterns subj
      | Some g \<Rightarrow>
          (let company = trim g in
           if length company > 2 \<and> length company < 50
              \<and> match1 True
                   (Seq [Bol, Group (Alt [Lit ''your'', Lit ''the'', Lit ''a'', Lit ''an'']), Eol])
                   company = None
           then Some company
           else extractCompanyFromSubjectLoop patterns subj))"

definition extractCompanyFromSubject :: "string \<Rightarrow> string option" where
  "extractCompanyFromSubject subj = extractCompanyFromSubjectLoop subjectPatterns subj"

text \<open>
  \<^verbatim>\<open>matchEmailToApplication\<close>. A lookup that is skipped because the company is
  falsy counts as a lookup that found nothing.
\<close>

definition matchEmailToApplication :: "database \<Rightarrow> uuid \<Rightarrow> ParsedEmail \<Rightarrow> MatchResult" where
  "matchEmailToApplication db userId email =
     (let atsCompany = extractCompanyFromATS email in
      case Option.bind (truthy atsCompany) (findApplicationByCompanyName db userId) of
        Some match \<Rightarrow>
          \<lparr>applicationId = Some (fst match), companyName = atsCompany,
           match_confidence = 0.9, matchType = match_ats\<rparr>
      | None \<Rightarrow>
          (let senderDomain = extractDomain (email_from email) in
           case findApplicationByDomain db userId senderDomain of
             Some domainMatch \<Rightarrow>
               \<lparr>applicationId = Some (fst domainMatch), companyName = Some (snd domainMatch),
                match_confidence = 0.95, matchType = match_domain\<rparr>
           | None \<Rightarrow>
               (let extractedCompany = extractCompanyFromSubject (subject email) in
                case Option.bind (truthy extractedCompany)
                       (findApplicationByCompanyName db userId) of
                  Some fuzzyMatch \<Rightarrow>
                    \<lparr>applicationId = Some (fst fuzzyMatch), companyName = extractedCompany,
                     match_confidence = 0.7, matchType = match_fuzzy\<rparr>
                | None \<Rightarrow>
                    \<lparr>applicationId = None,
                     companyName =
                       (case truthy atsCompany of
                          Some c \<Rightarrow> Some c
                        | None \<Rightarrow> truthy extractedCompany),
                     match_confidence = 0, matchType = match_none\<rparr>)))"

text \<open>
  \<^verbatim>\<open>getSuggestedApplications\<close>; the parameter \<open>limit\<close> is 5 by default.
  Its data are the rows' \<open>(id, company_name, job_title)\<close>.
\<close>

definition getSuggestedApplications ::
  "database \<Rightarrow> uuid \<Rightarrow> ParsedEmail \<Rightarrow> nat \<Rightarrow> (uuid \<times> string \<times> string) list" where
  "getSuggestedApplications db userId email limit =
     map (\<lambda>a. (app_id a, app_company_name a, app_job_title a))
       (take limit (order_created_at_desc
          (filter (\<lambda>a. app_user_id a = userId
                       \<and> app_status a \<in> set [APPLIED, SCREENING, INTERVIEWING])
             (applications db))))"

section \<open>Classifier (src/lib/llm/classify.ts)\<close>

text \<open>\<^verbatim>\<open>ClassificationResult\<close>; its fields \<^verbatim>\<open>type\<close> and \<^verbatim>\<open>confidence\<close> carry the prefix \<open>cls_\<close>.\<close>

record ClassificationResult =
  cls_type :: EmailClassification
  cls_confidence :: real
  reasoning :: string
  extractedData :: "ExtractedData option"

text \<open>
  \<^verbatim>\<open>formatEmailForClassification\<close>: the only part of the template that can throw is
  the rendering of the date.
\<close>

definition formatEmailForClassification :: "ParsedEmail \<Rightarrow> error + string" where
  "formatEmailForClassification email =
     (let bodyPreview = take 2000 (body email) in
      case toISOString (receivedAt email) of
        Inl err \<Rightarrow> Inl err
      | Inr isoText \<Rightarrow>
          Inr (''From: ''
                 @ (case truthy (fromName email) of Some n \<Rightarrow> n | None \<Rightarrow> ''Unknown'')
                 @ '' <'' @ email_from email @ ''>'' @ [CHR 0x0A]
                 @ ''Subject: '' @ subject email @ [CHR 0x0A]
                 @ ''Date: '' @ isoText @ [CHR 0x0A, CHR 0x0A]
                 @ ''Body:'' @ [CHR 0x0A]
                 @ bodyPreview))"

text \<open>
  \<^verbatim>\<open>classifyEmail\<close>. The model call \<^verbatim>\<open>generateObject\<close> is the external provider: a
  parameter that, for the prompt, either throws (\<open>Inl\<close>) or returns an object that
  fits the schema (\<open>Inr\<close>). The model, the schema and the system prompt are the same in
  every call. The prompt is formatted before the \<^verbatim>\<open>try\<close> block, so an error thrown
  while formatting reaches the caller (\<open>Inl\<close>); an error thrown by the model call is
  caught.
\<close>

definition safeDefault :: ClassificationResult where
  "safeDefault =
     \<lparr>cls_type = GENERIC_UPDATE, cls_confidence = 0.5,
      reasoning = ''Classification failed, defaulting to generic update'',
      extractedData = None\<rparr>"

definition classifyEmail ::
  "(string \<Rightarrow> error + ClassificationResult) \<Rightarrow> ParsedEmail \<Rightarrow> error + ClassificationResult" where
  "classifyEmail generateObject email =
     (case formatEmailForClassification email of
        Inl err \<Rightarrow> Inl err
      | Inr emailContent \<Rightarrow>
          (case generateObject emailContent of
             Inr object \<Rightarrow> Inr object
           | Inl err \<Rightarrow> Inr safeDefault))"

definition isSignificantClassification :: "EmailClassification \<Rightarrow> bool" where
  "isSignificantClassification t =
     (t \<in> set [REJECTION, INTERVIEW_REQUEST, OFFER_EMAIL, SCREENING_INVITE])"

section \<open>Orchestrator (the function \<^verbatim>\<open>processEmail\<close> of src/inngest/functions/process-email.ts)\<close>

text \<open>
  Each \<^verbatim>\<open>step.run\<close> of the source is a function from the database to the step's
  result and the new database; a step that throws gives \<open>Inl\<close>. The failures modelled
  are those the data decide: an invalid date where it is rendered, a violated foreign
  key on insert, and \<^verbatim>\<open>.single()\<close> not finding exactly one row.
\<close>

definition emptyExtractedData :: ExtractedData where
  "emptyExtractedData =
     \<lparr>interviewDate = None, interviewTime = None, deadline = None, nextSteps = None\<rparr>"

text \<open>
  Step 3, \<^verbatim>\<open>create-email-record\<close>: a plain insert, returning the new row. The row to
  insert is built first, with the date rendered by \<^verbatim>\<open>toISOString()\<close>. The record
  holds the confidence as the pipeline sends it; the column keeps two decimals of it.
\<close>

definition create_email_record ::
  "database \<Rightarrow> uuid \<Rightarrow> ParsedEmail \<Rightarrow> MatchResult \<Rightarrow> ClassificationResult
     \<Rightarrow> error + (application_email \<times> database)" where
  "create_email_record db userId email matchResult classification =
     (case toISOString (receivedAt email) of
        Inl err \<Rightarrow> Inl err
      | Inr received_at \<Rightarrow>
      if userId \<notin> set (users db)
      then Inl (RepositoryError ''application_emails_user_id_fkey'')
      else
        (let row =
               \<lparr>ae_id = next_uuid db,
                ae_user_id = userId,
                ae_application_id = applicationId matchResult,
                ae_from_address = email_from email,
                ae_from_name = fromName email,
                ae_subject = subject email,
                ae_body_preview = take 500 (body email),
                ae_received_at = received_at,
                ae_classification = cls_type classification,
                ae_classification_confidence = cls_confidence classification,
                ae_extracted_data =
                  (case extractedData classification of
                     Some d \<Rightarrow> d
                   | None \<Rightarrow> emptyExtractedData)\<rparr>
         in Inr (row,
                 db\<lparr>application_emails := application_emails db @ [row],
                    next_uuid := Suc (next_uuid db)\<rparr>)))"

text \<open>
  Step 4, \<^verbatim>\<open>create-unmatched-record\<close>. The source does not look at the insert's
  error; after step 3 the user and the email record exist, so the insert succeeds.
\<close>

definition create_unmatched_record ::
  "database \<Rightarrow> uuid \<Rightarrow> ParsedEmail \<Rightarrow> application_email \<Rightarrow> database" where
  "create_unmatched_record db userId email emailRecord =
     (let suggestions = getSuggestedApplications db userId email 5 in
      db\<lparr>unmatched_emails := unmatched_emails db @
            [\<lparr>ue_id = next_uuid db,
              ue_user_id = userId,
              ue_email_id = ae_id emailRecord,
              ue_suggested_application_ids = map fst suggestions,
              ue_linked_application_id = None,
              ue_status = ''pending''\<rparr>],
         next_uuid := Suc (next_uuid db)\<rparr>)"

text \<open>Step 5, \<^verbatim>\<open>get-application\<close>: \<^verbatim>\<open>.eq('id', applicationId).single()\<close>.\<close>

definition get_application :: "database \<Rightarrow> uuid \<Rightarrow> error + application" where
  "get_application db appId =
     (case single (filter (\<lambda>a. app_id a = appId) (applications db)) of
        Some a \<Rightarrow> Inr a
      | None \<Rightarrow> Inl (RepositoryError ''PGRST116''))"

text \<open>
  The trigger \<^verbatim>\<open>applications_status_history\<close> of the first migration: after the
  update of a row whose status changes, it inserts a history row with the trigger type
  \<^verbatim>\<open>'manual'\<close>.
\<close>

definition create_status_history ::
  "nat \<Rightarrow> application list \<Rightarrow> uuid \<Rightarrow> ApplicationStatus \<Rightarrow> status_history_row list" where
  "create_status_history now apps appId new =
     map (\<lambda>a. \<lparr>sh_application_id = app_id a,
               sh_from_status = Some (app_status a),
               sh_to_status = new,
               sh_trigger_type = manual,
               sh_trigger_email_id = None,
               sh_created_at = now\<rparr>)
       (filter (\<lambda>a. app_id a = appId \<and> app_status a \<noteq> new) apps)"

text \<open>
  Modelled from the spec: the follow-up write of the source,
  \<^verbatim>\<open>.update({...}).eq('application_id', id).order('created_at', { ascending: false }).limit(1)\<close>,
  which the spec describes as ``update the most recent history row''; the client
  library and the database are not under src/. The rows written are the rows of the
  application that no other row of the application is newer than.
\<close>

definition update_latest_history ::
  "status_history_row list \<Rightarrow> uuid \<Rightarrow> TriggerType \<Rightarrow> uuid \<Rightarrow> status_history_row list" where
  "update_latest_history rows appId trigger emailId =
     map (\<lambda>h. if sh_application_id h = appId
                 \<and> list_all (\<lambda>h'. sh_application_id h' = appId
                                   \<longrightarrow> sh_created_at h' \<le> sh_created_at h) rows
              then h\<lparr>sh_trigger_type := trigger, sh_trigger_email_id := Some emailId\<rparr>
              else h)
       rows"

text \<open>
  Step 7, \<^verbatim>\<open>update-application-status\<close>: the update
  \<^verbatim>\<open>.update({ status }).eq('id', applicationId)\<close>, the database trigger it fires, and
  then, as a second request, the write of the trigger type onto the latest history row.
  Neither write has a failure that the data decide. When the second request fails the
  source only logs a warning and goes on, so its outcome \<open>historyError\<close> is a parameter
  of the step: \<open>None\<close> when the request succeeded.
\<close>

definition update_application_status ::
  "nat \<Rightarrow> error option \<Rightarrow> database \<Rightarrow> uuid \<Rightarrow> ApplicationStatus \<Rightarrow> real \<Rightarrow> uuid
     \<Rightarrow> database" where
  "update_application_status now historyError db appId new confidence emailId =
     (let updated =
            map (\<lambda>a. if app_id a = appId then a\<lparr>app_status := new\<rparr> else a) (applications db);
          history = status_history db @ create_status_history now (applications db) appId new
      in db\<lparr>applications := updated,
            status_history :=
              (case historyError of
                 None \<Rightarrow> update_latest_history history appId (getTriggerType confidence) emailId
               | Some err \<Rightarrow> history)\<rparr>)"

text \<open>
  What \<^verbatim>\<open>processEmail\<close> returns. With \<^verbatim>\<open>status: 'unmatched'\<close> the fields are
  \<^verbatim>\<open>emailId\<close>, \<^verbatim>\<open>classification\<close>, \<^verbatim>\<open>confidence\<close>; with \<^verbatim>\<open>status: 'processed'\<close>
  they are \<^verbatim>\<open>emailId\<close>, \<^verbatim>\<open>applicationId\<close>, \<^verbatim>\<open>classification\<close>, \<^verbatim>\<open>confidence\<close>,
  \<^verbatim>\<open>statusUpdated\<close>, \<^verbatim>\<open>newStatus\<close>, \<^verbatim>\<open>needsReview\<close>, in this order.
\<close>

datatype ProcessResult =
    Unmatched uuid EmailClassification real
  | Processed uuid uuid EmailClassification real bool "ApplicationStatus option" bool

text \<open>
  \<^verbatim>\<open>processEmail\<close>: one run in which every step is executed once, on the
  \<^verbatim>\<open>ParsedEmail\<close> built from the event. \<open>now\<close> is the time of the database during
  the run and \<open>historyError\<close> the outcome of the second request of step 7.
\<close>

definition processEmail ::
  "(string \<Rightarrow> error + ClassificationResult) \<Rightarrow> nat \<Rightarrow> error option \<Rightarrow> database \<Rightarrow> uuid
     \<Rightarrow> ParsedEmail \<Rightarrow> error + (ProcessResult \<times> database)" where
  "processEmail generateObject now historyError db userId email =
     (let matchResult = matchEmailToApplication db userId email in
      case classifyEmail generateObject email of
        Inl err \<Rightarrow> Inl err
      | Inr classification \<Rightarrow>
     (case create_email_record db userId email matchResult classification of
        Inl err \<Rightarrow> Inl err
      | Inr (emailRecord, db1) \<Rightarrow>
     (case applicationId matchResult of
        None \<Rightarrow>
          Inr (Unmatched (ae_id emailRecord) (cls_type classification)
                 (cls_confidence classification),
               create_unmatched_record db1 userId email emailRecord)
      | Some appId \<Rightarrow>
     (case get_application db1 appId of
        Inl err \<Rightarrow> Inl err
      | Inr app \<Rightarrow>
          (let transition =
                 getStatusTransition (cls_type classification)
                   (cls_confidence classification) (app_status app);
               db2 =
                 (case newStatus transition of
                    Some new \<Rightarrow>
                      (if shouldUpdate transition
                       then update_application_status now historyError db1 appId new
                              (cls_confidence classification) (ae_id emailRecord)
                       else db1)
                  | None \<Rightarrow> db1)
           in Inr (Processed (ae_id emailRecord) appId (cls_type classification)
                     (cls_confidence classification) (shouldUpdate transition)
                     (newStatus transition) (needsReview transition),
                   db2))))))"

section \<open>Example data\<close>

text \<open>
  A user with two tracked applications, both \<open>APPLIED\<close>; the one at Stripe is the
  more recent. The examples below run the pipeline on this database.
\<close>

definition example_db :: database where
  "example_db =
     \<lparr>users = [1],
      applications =
        [\<lparr>app_id = 7, app_user_id = 1, app_job_title = ''Engineer'',
          app_company_name = ''Meta'', app_status = APPLIED, app_created_at = 10\<rparr>,
         \<lparr>app_id = 8, app_user_id = 1, app_job_title = ''Engineer'',
          app_company_name = ''Stripe'', app_status = APPLIED, app_created_at = 20\<rparr>],
      application_emails = [], unmatched_emails = [], status_history = [],
      next_uuid = 100\<rparr>"

definition example_email :: "string \<Rightarrow> string \<Rightarrow> ParsedEmail" where
  "example_email sender subj =
     \<lparr>email_from = sender, fromName = None, subject = subj, body = ''Hi'',
      receivedAt = ValidDate ''2025-01-01T00:00:00.000Z''\<rparr>"

text \<open>
  An email from a domain of the Meta family that is neither an ATS domain nor a
  substring match of a tracked company, with a subject that names no company.
\<close>

definition alias_email :: ParsedEmail where
  "alias_email = example_email ''recruiting@fb.com'' ''Interview invitation''"

text \<open>
  An email from an unknown domain whose subject names a tracked company, and
  \<open>alias_email\<close> with an invalid date.
\<close>

definition subject_email :: ParsedEmail where
  "subject_email =
     example_email ''jobs@talentmail.org'' ''Interview with Stripe - next steps''"

definition invalid_date_email :: ParsedEmail where
  "invalid_date_email = alias_email\<lparr>receivedAt := InvalidDate\<rparr>"

text \<open>An email from the domain of a tracked company, and a model call that succeeds.\<close>

definition stripe_email :: ParsedEmail where
  "stripe_email = example_email ''hr@stripe.com'' ''Interview invitation''"

definition example_model ::
  "EmailClassification \<Rightarrow> real \<Rightarrow> string \<Rightarrow> error + ClassificationResult" where
  "example_model cls conf prompt =
     Inr \<lparr>cls_type = cls, cls_confidence = conf, reasoning = ''example'',
          extractedData = None\<rparr>"

text \<open>
  \<open>example_db\<close> after the user has withdrawn the application at Stripe by hand, and
  \<open>example_db\<close> after a run that classified \<open>stripe_email\<close> as an interview request
  with the given confidence, at time 50.
\<close>

definition example_db_withdrawn :: database where
  "example_db_withdrawn =
     example_db\<lparr>applications :=
       [\<lparr>app_id = 7, app_user_id = 1, app_job_title = ''Engineer'',
         app_company_name = ''Meta'', app_status = APPLIED, app_created_at = 10\<rparr>,
        \<lparr>app_id = 8, app_user_id = 1, app_job_title = ''Engineer'',
         app_company_name = ''Stripe'', app_status = WITHDRAWN, app_created_at = 20\<rparr>]\<rparr>"

definition example_db_interviewing :: "real \<Rightarrow> database" where
  "example_db_interviewing conf =
     \<lparr>users = [1],
      applications =
        [\<lparr>app_id = 7, app_user_id = 1, app_job_title = ''Engineer'',
          app_company_name = ''Meta'', app_status = APPLIED, app_created_at = 10\<rparr>,
         \<lparr>app_id = 8, app_user_id = 1, app_job_title = ''Engineer'',
          app_company_name = ''Stripe'', app_status = INTERVIEWING, app_created_at = 20\<rparr>],
      application_emails =
        [\<lparr>ae_id = 100, ae_user_id = 1, ae_application_id = Some 8,
          ae_from_address = ''hr@stripe.com'', ae_from_name = None,
          ae_subject = ''Interview invitation'', ae_body_preview = ''Hi'',
          ae_received_at = ''2025-01-01T00:00:00.000Z'',
          ae_classification = INTERVIEW_REQUEST, ae_classification_confidence = conf,
          ae_extracted_data = emptyExtractedData\<rparr>],
      unmatched_emails = [],
      status_history =
        [\<lparr>sh_application_id = 8, sh_from_status = Some APPLIED,
          sh_to_status = INTERVIEWING, sh_trigger_type = email_auto,
          sh_trigger_email_id = Some 100, sh_created_at = 50\<rparr>],
      next_uuid = 101\<rparr>"

text \<open>
  \<open>example_db\<close> with one earlier history entry of the application at Stripe, dated 30,
  and that database after a run that classified \<open>stripe_email\<close> as an interview request
  with confidence 0.75, at time 50.
\<close>

definition example_db_tracked :: database where
  "example_db_tracked =
     example_db
       \<lparr>status_history :=
          [\<lparr>sh_application_id = 8, sh_from_status = Some SAVED, sh_to_status = APPLIED,
            sh_trigger_type = manual, sh_trigger_email_id = None, sh_created_at = 30\<rparr>]\<rparr>"

definition example_db_tracked_interviewing :: database where
  "example_db_tracked_interviewing =
     (example_db_interviewing 0.75)
       \<lparr>status_history :=
          [\<lparr>sh_application_id = 8, sh_from_status = Some SAVED, sh_to_status = APPLIED,
            sh_trigger_type = manual, sh_trigger_email_id = None, sh_created_at = 30\<rparr>,
           \<lparr>sh_application_id = 8, sh_from_status = Some APPLIED,
            sh_to_status = INTERVIEWING, sh_trigger_type = email_auto,
            sh_trigger_email_id = Some 100, sh_created_at = 50\<rparr>]\<rparr>"

text \<open>An email whose sender address has no at sign.\<close>

definition no_at_email :: ParsedEmail where
  "no_at_email = example_email ''nobody'' ''Hello''"


text \<open>The database after the same email has been processed a second time, at time 60.\<close>

definition example_db_rerun :: database where
  "example_db_rerun =
     (example_db_interviewing 0.95)
       \<lparr>application_emails :=
          application_emails (example_db_interviewing 0.95) @
          [\<lparr>ae_id = 101, ae_user_id = 1, ae_application_id = Some 8,
            ae_from_address = ''hr@stripe.com'', ae_from_name = None,
            ae_subject = ''Interview invitation'', ae_body_preview = ''Hi'',
            ae_received_at = ''2025-01-01T00:00:00.000Z'',
            ae_classification = INTERVIEW_REQUEST, ae_classification_confidence = 0.95,
            ae_extracted_data = emptyExtractedData\<rparr>],
        next_uuid := 102\<rparr>"

section \<open>Properties of the Transition Engine\<close>

text \<open>
  C1. Whenever the classification maps to a target status that is not among the legal
  outgoing edges of the current status, the decision is \<open>shouldUpdate = False\<close> and
  \<open>needsReview = True\<close>, for every confidence (in particular for every one in
  \<open>[0, 1]\<close>): a high confidence never overrides an illegal edge.
\<close>

theorem illegal_edge_never_applied:
  assumes "CLASSIFICATION_TO_STATUS classification = Some targetStatus"
    and "targetStatus \<notin> set (VALID_TRANSITIONS currentStatus)"
  shows "shouldUpdate (getStatusTransition classification confidence currentStatus) = False
       \<and> needsReview (getStatusTransition classification confidence currentStatus) = True"
  using assms by (simp add: getStatusTransition_def)

theorem illegal_edge_never_applied_witness:
  "CLASSIFICATION_TO_STATUS INTERVIEW_REQUEST = Some INTERVIEWING
   \<and> INTERVIEWING \<notin> set (VALID_TRANSITIONS REJECTED)
   \<and> shouldUpdate (getStatusTransition INTERVIEW_REQUEST 0.95 REJECTED) = False
   \<and> needsReview (getStatusTransition INTERVIEW_REQUEST 0.95 REJECTED) = True"
  using illegal_edge_never_applied [of INTERVIEW_REQUEST INTERVIEWING REJECTED "0.95"]
  by simp

text \<open>
  C2. For a classification whose target status is a legal outgoing edge of the current
  status: a confidence of at least 0.9 gives \<open>shouldUpdate = True\<close> and
  \<open>needsReview = False\<close>; a confidence in \<open>[0.7, 0.9)\<close> gives \<open>shouldUpdate = True\<close>
  and \<open>needsReview = True\<close>.
\<close>

theorem legal_edge_confidence_bands:
  assumes "CLASSIFICATION_TO_STATUS classification = Some targetStatus"
    and "targetStatus \<in> set (VALID_TRANSITIONS currentStatus)"
  shows "(confidence \<ge> 0.9 \<longrightarrow>
            shouldUpdate (getStatusTransition classification confidence currentStatus) = True
          \<and> needsReview (getStatusTransition classification confidence currentStatus) = False)
       \<and> (0.7 \<le> confidence \<and> confidence < 0.9 \<longrightarrow>
            shouldUpdate (getStatusTransition classification confidence currentStatus) = True
          \<and> needsReview (getStatusTransition classification confidence currentStatus) = True)"
  using assms
  by (simp add: getStatusTransition_def FLAG_FOR_REVIEW_def AUTO_UPDATE_def)

theorem legal_edge_confidence_bands_witness:
  "CLASSIFICATION_TO_STATUS INTERVIEW_REQUEST = Some INTERVIEWING
   \<and> INTERVIEWING \<in> set (VALID_TRANSITIONS APPLIED)
   \<and> (0.95::real) \<ge> 0.9
   \<and> shouldUpdate (getStatusTransition INTERVIEW_REQUEST 0.95 APPLIED) = True
   \<and> needsReview (getStatusTransition INTERVIEW_REQUEST 0.95 APPLIED) = False
   \<and> (0.7::real) \<le> 0.75 \<and> (0.75::real) < 0.9
   \<and> shouldUpdate (getStatusTransition INTERVIEW_REQUEST 0.75 APPLIED) = True
   \<and> needsReview (getStatusTransition INTERVIEW_REQUEST 0.75 APPLIED) = True"
  using legal_edge_confidence_bands [of INTERVIEW_REQUEST INTERVIEWING APPLIED "0.95"]
    legal_edge_confidence_bands [of INTERVIEW_REQUEST INTERVIEWING APPLIED "0.75"]
  by simp

text \<open>
  C3, as stated: for every classification, every current status and every confidence
  below 0.7 the decision is \<open>shouldUpdate = False\<close> and \<open>needsReview = True\<close>. The
  engine checks the category first: a category with no target status is a no-op that is
  not flagged, whatever the confidence. \<open>GENERIC_UPDATE\<close> at confidence 0.5 on an
  \<open>APPLIED\<close> application (the classifier's safe default) is such a case.
\<close>

theorem low_confidence_always_flagged_counterexample:
  "\<not> (shouldUpdate (getStatusTransition GENERIC_UPDATE 0.5 APPLIED) = False
      \<and> needsReview (getStatusTransition GENERIC_UPDATE 0.5 APPLIED) = True)"
  by (simp add: getStatusTransition_def)

text \<open>
  C3, amended: for every classification, every current status and every confidence
  below 0.7, \<open>shouldUpdate = False\<close>; and \<open>needsReview = True\<close> exactly when the
  classification maps to a target status (for \<open>GENERIC_UPDATE\<close> and \<open>UNRELATED\<close>
  \<open>needsReview = False\<close>).
\<close>

theorem low_confidence_never_updates:
  assumes "confidence < 0.7"
  shows "shouldUpdate (getStatusTransition classification confidence currentStatus) = False
       \<and> needsReview (getStatusTransition classification confidence currentStatus)
           = (CLASSIFICATION_TO_STATUS classification \<noteq> None)"
  using assms
  by (simp add: getStatusTransition_def FLAG_FOR_REVIEW_def split: option.split)

theorem low_confidence_never_updates_witness:
  "(0.5::real) < 0.7
   \<and> shouldUpdate (getStatusTransition REJECTION 0.5 APPLIED) = False
   \<and> needsReview (getStatusTransition REJECTION 0.5 APPLIED)
       = (CLASSIFICATION_TO_STATUS REJECTION \<noteq> None)
   \<and> needsReview (getStatusTransition REJECTION 0.5 APPLIED) = True"
  using low_confidence_never_updates [of "0.5" REJECTION APPLIED]
  by simp

section \<open>Properties of the Matcher\<close>

lemma alias_email_ats_fails:
  "Option.bind (truthy (extractCompanyFromATS alias_email))
     (findApplicationByCompanyName example_db 1) = None"
  by code_simp

lemma alias_email_domain_fails:
  "findApplicationByDomain example_db 1 (extractDomain (email_from alias_email)) = None"
  by code_simp

lemma alias_email_subject_fails:
  "Option.bind (truthy (extractCompanyFromSubject (subject alias_email)))
     (findApplicationByCompanyName example_db 1) = None"
  by code_simp

lemma subject_email_ats_fails:
  "Option.bind (truthy (extractCompanyFromATS subject_email))
     (findApplicationByCompanyName example_db 1) = None"
  by code_simp

lemma subject_email_domain_fails:
  "findApplicationByDomain example_db 1 (extractDomain (email_from subject_email)) = None"
  by code_simp

lemma subject_email_company:
  "extractCompanyFromSubject (subject subject_email) = Some ''Stripe''"
  by code_simp

lemma subject_email_subject_found:
  "Option.bind (truthy (extractCompanyFromSubject (subject subject_email)))
     (findApplicationByCompanyName example_db 1) = Some (8, ''Stripe'')"
  by code_simp

lemma subject_email_match:
  "matchEmailToApplication example_db 1 subject_email =
     \<lparr>applicationId = Some 8, companyName = Some ''Stripe'', match_confidence = 0.7,
      matchType = match_fuzzy\<rparr>"
  by code_simp

lemma alias_email_match:
  "matchEmailToApplication example_db 1 alias_email =
     \<lparr>applicationId = None, companyName = None, match_confidence = 0,
      matchType = match_none\<rparr>"
  by code_simp

text \<open>
  C7, as stated: when ATS extraction and the direct domain match both fail, the Matcher
  resolves the sender domain against a table of corporate domain families and returns
  the application of the canonical name with confidence 0.85. The Matcher has no such
  table and no such step. For the user of \<open>example_db\<close>, who tracks an application at
  Meta (id 7), an email from \<^verbatim>\<open>recruiting@fb.com\<close> fails both earlier strategies and
  is then reported as unmatched, not as a match with application 7 at 0.85.
\<close>

theorem domain_alias_counterexample:
  "extractCompanyFromATS alias_email = None
   \<and> findApplicationByDomain example_db 1 (extractDomain (email_from alias_email)) = None
   \<and> \<not> (applicationId (matchEmailToApplication example_db 1 alias_email) = Some 7
        \<and> match_confidence (matchEmailToApplication example_db 1 alias_email) = 0.85)
   \<and> matchType (matchEmailToApplication example_db 1 alias_email) = match_none"
  by code_simp

text \<open>
  C7, amended: the Matcher never returns the confidence 0.85; when the ATS lookup and
  the direct domain match both fail, it goes on to the subject fuzzy match at once: if
  the lookup of the company extracted from the subject finds an application, that
  application is returned with the extracted company, confidence 0.7 and match type
  \<open>match_fuzzy\<close>; otherwise no application is returned, with confidence 0 and match
  type \<open>match_none\<close>.
\<close>

theorem domain_failure_leads_to_subject_match:
  "match_confidence (matchEmailToApplication db userId email) \<noteq> 0.85
   \<and> (Option.bind (truthy (extractCompanyFromATS email))
         (findApplicationByCompanyName db userId) = None
       \<and> findApplicationByDomain db userId (extractDomain (email_from email)) = None
       \<longrightarrow>
         (\<exists>found.
             Option.bind (truthy (extractCompanyFromSubject (subject email)))
               (findApplicationByCompanyName db userId) = Some found
           \<and> applicationId (matchEmailToApplication db userId email) = Some (fst found)
           \<and> companyName (matchEmailToApplication db userId email)
               = extractCompanyFromSubject (subject email)
           \<and> matchType (matchEmailToApplication db userId email) = match_fuzzy
           \<and> match_confidence (matchEmailToApplication db userId email) = 0.7)
         \<or> (Option.bind (truthy (extractCompanyFromSubject (subject email)))
               (findApplicationByCompanyName db userId) = None
           \<and> applicationId (matchEmailToApplication db userId email) = None
           \<and> matchType (matchEmailToApplication db userId email) = match_none
           \<and> match_confidence (matchEmailToApplication db userId email) = 0))"
  by (simp add: matchEmailToApplication_def Let_def split: option.split)

theorem domain_failure_leads_to_subject_match_witness:
  "Option.bind (truthy (extractCompanyFromATS alias_email))
     (findApplicationByCompanyName example_db 1) = None
   \<and> findApplicationByDomain example_db 1 (extractDomain (email_from alias_email)) = None
   \<and> Option.bind (truthy (extractCompanyFromSubject (subject alias_email)))
       (findApplicationByCompanyName example_db 1) = None
   \<and> matchEmailToApplication example_db 1 alias_email =
       \<lparr>applicationId = None, companyName = None, match_confidence = 0,
        matchType = match_none\<rparr>
   \<and> Option.bind (truthy (extractCompanyFromATS subject_email))
       (findApplicationByCompanyName example_db 1) = None
   \<and> findApplicationByDomain example_db 1 (extractDomain (email_from subject_email)) = None
   \<and> Option.bind (truthy (extractCompanyFromSubject (subject subject_email)))
       (findApplicationByCompanyName example_db 1) = Some (8, ''Stripe'')
   \<and> matchEmailToApplication example_db 1 subject_email =
       \<lparr>applicationId = Some 8, companyName = Some ''Stripe'', match_confidence = 0.7,
        matchType = match_fuzzy\<rparr>"
proof -
  have none: "applicationId (matchEmailToApplication example_db 1 alias_email) = None
      \<and> matchType (matchEmailToApplication example_db 1 alias_email) = match_none
      \<and> match_confidence (matchEmailToApplication example_db 1 alias_email) = 0"
    using domain_failure_leads_to_subject_match [of example_db 1 alias_email]
      alias_email_ats_fails alias_email_domain_fails alias_email_subject_fails
    by simp
  have found: "applicationId (matchEmailToApplication example_db 1 subject_email) = Some 8
      \<and> companyName (matchEmailToApplication example_db 1 subject_email) = Some ''Stripe''
      \<and> matchType (matchEmailToApplication example_db 1 subject_email) = match_fuzzy
      \<and> match_confidence (matchEmailToApplication example_db 1 subject_email) = 0.7"
    using domain_failure_leads_to_subject_match [of example_db 1 subject_email]
      subject_email_ats_fails subject_email_domain_fails subject_email_subject_found
      subject_email_company
    by simp
  show ?thesis
    using none found alias_email_ats_fails alias_email_domain_fails alias_email_subject_fails
      alias_email_match subject_email_ats_fails subject_email_domain_fails
      subject_email_subject_found subject_email_match
    by simp
qed

section \<open>Properties of the Classifier\<close>

text \<open>
  C8, as stated: for every email, \<open>classifyEmail\<close> never raises to its caller. The
  prompt is formatted before the \<^verbatim>\<open>try\<close> block, and formatting renders the date of
  the email: for an email whose \<^verbatim>\<open>receivedAt\<close> is an invalid date the
  \<^verbatim>\<open>RangeError\<close> of \<^verbatim>\<open>toISOString()\<close> reaches the caller, also when the model call
  would have succeeded.
\<close>

theorem classifyEmail_never_raises_counterexample:
  "classifyEmail (example_model GENERIC_UPDATE 0.9) invalid_date_email
     = Inl (RangeError ''Invalid time value'')"
  by (simp add: classifyEmail_def formatEmailForClassification_def invalid_date_email_def)

text \<open>
  C8, amended: for every email whose \<^verbatim>\<open>receivedAt\<close> is a valid date,
  \<open>classifyEmail\<close> returns a classification and raises nothing, whatever the model
  call does; when the model call fails on the email's prompt, the classification
  returned is the safe default: \<open>GENERIC_UPDATE\<close>, confidence 0.5, and a reasoning
  that says the classification failed.
\<close>

theorem classifyEmail_never_raises:
  assumes "receivedAt email = ValidDate isoText"
  shows "\<exists>prompt. formatEmailForClassification email = Inr prompt
         \<and> (\<exists>r. classifyEmail generateObject email = Inr r)
         \<and> (\<forall>err. generateObject prompt = Inl err \<longrightarrow>
               classifyEmail generateObject email =
                 Inr \<lparr>cls_type = GENERIC_UPDATE, cls_confidence = 0.5,
                      reasoning = ''Classification failed, defaulting to generic update'',
                      extractedData = None\<rparr>)"
  using assms
  by (simp add: classifyEmail_def formatEmailForClassification_def safeDefault_def
           split: sum.split)

theorem classifyEmail_never_raises_witness:
  "receivedAt alias_email = ValidDate ''2025-01-01T00:00:00.000Z''
   \<and> classifyEmail (\<lambda>prompt. Inl (ModelCallError ''timeout'')) alias_email =
       Inr \<lparr>cls_type = GENERIC_UPDATE, cls_confidence = 0.5,
            reasoning = ''Classification failed, defaulting to generic update'',
            extractedData = None\<rparr>"
proof -
  have valid: "receivedAt alias_email = ValidDate ''2025-01-01T00:00:00.000Z''"
    by (simp add: alias_email_def example_email_def)
  from classifyEmail_never_raises
         [OF valid, of "\<lambda>prompt. Inl (ModelCallError ''timeout'')"]
  have "classifyEmail (\<lambda>prompt. Inl (ModelCallError ''timeout'')) alias_email =
       Inr \<lparr>cls_type = GENERIC_UPDATE, cls_confidence = 0.5,
            reasoning = ''Classification failed, defaulting to generic update'',
            extractedData = None\<rparr>"
    by auto
  with valid show ?thesis
    by simp
qed

section \<open>Properties of the Orchestrator\<close>

lemma no_self_transition: "s \<notin> set (VALID_TRANSITIONS s)"
  by (cases s) simp_all

lemma shouldUpdate_cases:
  assumes "shouldUpdate (getStatusTransition cls conf s)"
  shows "\<exists>t. newStatus (getStatusTransition cls conf s) = Some t
            \<and> t \<in> set (VALID_TRANSITIONS s) \<and> 0.7 \<le> conf"
  using assms
  by (auto simp: getStatusTransition_def FLAG_FOR_REVIEW_def Let_def
           split: option.splits if_splits)

lemma run_075:
  "processEmail (example_model INTERVIEW_REQUEST 0.75) 50 None example_db 1 stripe_email =
     Inr (Processed 100 8 INTERVIEW_REQUEST 0.75 True (Some INTERVIEWING) True,
          example_db_interviewing 0.75)"
  by code_simp

lemma run_095:
  "processEmail (example_model INTERVIEW_REQUEST 0.95) 50 None example_db 1 stripe_email =
     Inr (Processed 100 8 INTERVIEW_REQUEST 0.95 True (Some INTERVIEWING) False,
          example_db_interviewing 0.95)"
  by code_simp

lemma run_tracked:
  "processEmail (example_model INTERVIEW_REQUEST 0.75) 50 None example_db_tracked 1 stripe_email =
     Inr (Processed 100 8 INTERVIEW_REQUEST 0.75 True (Some INTERVIEWING) True,
          example_db_tracked_interviewing)"
  by code_simp

lemma single_Some_iff: "single xs = Some x \<longleftrightarrow> xs = [x]"
  by (cases xs rule: single.cases) auto

lemma get_application_Inr:
  "get_application db appId = Inr app \<Longrightarrow>
     filter (\<lambda>a. app_id a = appId) (applications db) = [app]"
  by (auto simp: get_application_def single_Some_iff split: option.splits)

lemma create_email_record_Inr:
  assumes "create_email_record db userId email m c = Inr (rec, db1)"
  shows "applications db1 = applications db \<and> status_history db1 = status_history db
       \<and> unmatched_emails db1 = unmatched_emails db \<and> users db1 = users db
       \<and> application_emails db1 = application_emails db @ [rec]
       \<and> userId \<in> set (users db)
       \<and> (\<exists>isoText. receivedAt email = ValidDate isoText)"
proof -
  obtain isoText where isoText: "receivedAt email = ValidDate isoText"
    using assms by (cases "receivedAt email") (simp_all add: create_email_record_def)
  show ?thesis
    using assms by (auto simp: create_email_record_def isoText Let_def split: if_splits)
qed

lemma processEmail_Processed:
  assumes "processEmail g now historyError db userId email = Inr (Processed eid aid cls conf upd ns nr, db')"
  shows "\<exists>c rec db1 app.
           classifyEmail g email = Inr c
         \<and> cls = cls_type c \<and> conf = cls_confidence c
         \<and> applicationId (matchEmailToApplication db userId email) = Some aid
         \<and> create_email_record db userId email (matchEmailToApplication db userId email) c
             = Inr (rec, db1)
         \<and> eid = ae_id rec
         \<and> get_application db1 aid = Inr app
         \<and> upd = shouldUpdate (getStatusTransition cls conf (app_status app))
         \<and> ns = newStatus (getStatusTransition cls conf (app_status app))
         \<and> nr = needsReview (getStatusTransition cls conf (app_status app))
         \<and> db' = (case ns of
                     Some new \<Rightarrow> if upd then update_application_status now historyError db1 aid new conf eid
                                 else db1
                   | None \<Rightarrow> db1)"
  using assms
  by (auto simp: processEmail_def Let_def split: sum.splits option.splits prod.splits)

lemma filter_changed_row:
  assumes "filter (\<lambda>a. app_id a = appId) apps = [app]" and "app_status app \<noteq> new"
  shows "filter (\<lambda>a. app_id a = appId \<and> app_status a \<noteq> new) apps = [app]"
proof -
  have "filter (\<lambda>a. app_id a = appId \<and> app_status a \<noteq> new) apps
        = filter (\<lambda>a. app_status a \<noteq> new) (filter (\<lambda>a. app_id a = appId) apps)"
    by (simp add: conj_commute)
  with assms show ?thesis by simp
qed

lemma history_after_update:
  assumes one: "filter (\<lambda>a. app_id a = appId) (applications db) = [app]"
    and changed: "app_status app \<noteq> new"
    and clock: "\<forall>h \<in> set (status_history db).
                  sh_application_id h = appId \<longrightarrow> sh_created_at h \<le> now"
  shows "status_history (update_application_status now None db appId new conf eid)
         = map (\<lambda>h. if sh_application_id h = appId
                        \<and> list_all (\<lambda>h'. sh_application_id h' = appId
                                          \<longrightarrow> sh_created_at h' \<le> sh_created_at h)
                             (status_history db)
                        \<and> now \<le> sh_created_at h
                     then h\<lparr>sh_trigger_type := getTriggerType conf,
                           sh_trigger_email_id := Some eid\<rparr>
                     else h) (status_history db)
           @ [\<lparr>sh_application_id = appId, sh_from_status = Some (app_status app),
               sh_to_status = new, sh_trigger_type = getTriggerType conf,
               sh_trigger_email_id = Some eid, sh_created_at = now\<rparr>]"
proof -
  have app: "app_id app = appId"
  proof -
    have "app \<in> set (filter (\<lambda>a. app_id a = appId) (applications db))"
      using one by simp
    then show ?thesis by simp
  qed
  have rows: "create_status_history now (applications db) appId new
        = [\<lparr>sh_application_id = appId, sh_from_status = Some (app_status app),
            sh_to_status = new, sh_trigger_type = manual,
            sh_trigger_email_id = None, sh_created_at = now\<rparr>]"
    using filter_changed_row [OF one changed] app by (simp add: create_status_history_def)
  have all_le: "list_all (\<lambda>h'. sh_application_id h' = appId \<longrightarrow> sh_created_at h' \<le> now)
                  (status_history db)"
    using clock by (simp add: list_all_iff)
  show ?thesis
    using all_le
    by (simp add: update_application_status_def Let_def rows update_latest_history_def)
qed

text \<open>
  C5, as stated: the status-update step writes the status only if the row's current
  status still equals the status read in the get-application step, and is a no-op
  otherwise. The update of the source selects the row by its id alone. In the example
  the run reads \<open>APPLIED\<close> and decides to move to \<open>INTERVIEWING\<close>; the user withdraws
  the application before the update step; the update step then overwrites
  \<open>WITHDRAWN\<close> with \<open>INTERVIEWING\<close>.
\<close>

theorem optimistic_guard_counterexample:
  "map_sum id app_status (get_application example_db 8) = Inr APPLIED
   \<and> shouldUpdate (getStatusTransition INTERVIEW_REQUEST 0.95 APPLIED)
   \<and> newStatus (getStatusTransition INTERVIEW_REQUEST 0.95 APPLIED) = Some INTERVIEWING
   \<and> map_sum id app_status (get_application example_db_withdrawn 8) = Inr WITHDRAWN
   \<and> map_sum id app_status
        (get_application
           (update_application_status 50 None example_db_withdrawn 8 INTERVIEWING 0.95 100) 8)
       = Inr INTERVIEWING"
  by code_simp

text \<open>
  C5, amended: the status-update step writes the target status to every application row
  with the given id, whatever the row's current status is (also when it is no longer the
  status read in the get-application step), and leaves the status of every other row as
  it was.
\<close>

theorem status_update_writes_unconditionally:
  "map app_id (applications (update_application_status now historyError db appId new confidence emailId))
     = map app_id (applications db)
   \<and> map app_status
        (applications (update_application_status now historyError db appId new confidence emailId))
     = map (\<lambda>a. if app_id a = appId then new else app_status a) (applications db)"
  by (simp add: update_application_status_def Let_def comp_def if_distrib cong: if_cong)

theorem status_update_writes_unconditionally_witness:
  "map app_status (applications example_db_withdrawn) = [APPLIED, WITHDRAWN]
   \<and> map app_status
        (applications
           (update_application_status 50 None example_db_withdrawn 8 INTERVIEWING 0.95 100))
     = [APPLIED, INTERVIEWING]"
  using status_update_writes_unconditionally
    [of 50 None example_db_withdrawn 8 INTERVIEWING "0.95" 100]
  by (simp add: example_db_withdrawn_def example_db_def)

text \<open>
  C6, as stated: the history entry of an applied update carries the needs-review
  trigger type exactly when the engine returned \<open>needsReview = True\<close>. The two example
  runs differ in \<open>needsReview\<close> (confidence 0.75 and 0.95) and leave the same history:
  one entry with the trigger type \<open>email_auto\<close>.
\<close>

theorem trigger_type_reflects_review_counterexample:
  "processEmail (example_model INTERVIEW_REQUEST 0.75) 50 None example_db 1 stripe_email
     = Inr (Processed 100 8 INTERVIEW_REQUEST 0.75 True (Some INTERVIEWING) True,
            example_db_interviewing 0.75)
   \<and> processEmail (example_model INTERVIEW_REQUEST 0.95) 50 None example_db 1 stripe_email
     = Inr (Processed 100 8 INTERVIEW_REQUEST 0.95 True (Some INTERVIEWING) False,
            example_db_interviewing 0.95)
   \<and> status_history (example_db_interviewing 0.75)
     = status_history (example_db_interviewing 0.95)
   \<and> map sh_trigger_type (status_history (example_db_interviewing 0.75)) = [email_auto]"
  using run_075 run_095 by (simp add: example_db_interviewing_def)

text \<open>
  C6, amended: whenever a run applies a status update, whether \<open>needsReview\<close> is true
  or false, and provided that the follow-up write of the trigger type succeeds and that
  no history entry of the application is dated later than the run: the history holds an
  entry for the application with the new status, dated at the time of the run, whose
  trigger type is \<open>email_auto\<close> and whose trigger email is the run's email record; and
  every history entry that the run adds or changes carries that trigger type and that
  email.
\<close>

theorem history_trigger_is_email_auto:
  assumes run: "processEmail g now None db userId email
                  = Inr (Processed eid aid cls conf True ns nr, db')"
    and clock: "\<forall>h \<in> set (status_history db).
                  sh_application_id h = aid \<longrightarrow> sh_created_at h \<le> now"
  shows "(\<exists>h \<in> set (status_history db').
            sh_application_id h = aid \<and> Some (sh_to_status h) = ns
          \<and> sh_created_at h = now
          \<and> sh_trigger_type h = email_auto \<and> sh_trigger_email_id h = Some eid)
       \<and> (\<forall>h \<in> set (status_history db').
            h \<notin> set (status_history db) \<longrightarrow>
              sh_trigger_type h = email_auto \<and> sh_trigger_email_id h = Some eid)"
proof -
  from processEmail_Processed [OF run] obtain c rec db1 app where
    rec: "create_email_record db userId email (matchEmailToApplication db userId email) c
            = Inr (rec, db1)"
    and app: "get_application db1 aid = Inr app"
    and upd: "shouldUpdate (getStatusTransition cls conf (app_status app))"
    and ns: "ns = newStatus (getStatusTransition cls conf (app_status app))"
    and db': "db' = (case ns of
                       Some new \<Rightarrow>
                         if True then update_application_status now None db1 aid new conf eid
                         else db1
                     | None \<Rightarrow> db1)"
    by auto
  from shouldUpdate_cases [OF upd] ns obtain new where
    new: "ns = Some new" "new \<in> set (VALID_TRANSITIONS (app_status app))" "0.7 \<le> conf"
    by auto
  have changed: "app_status app \<noteq> new"
    using new(2) no_self_transition by metis
  have auto_type: "getTriggerType conf = email_auto"
    using new(3) by (simp add: getTriggerType_def FLAG_FOR_REVIEW_def)
  have same: "status_history db1 = status_history db"
    using create_email_record_Inr [OF rec] by simp
  have clock1: "\<forall>h \<in> set (status_history db1).
                  sh_application_id h = aid \<longrightarrow> sh_created_at h \<le> now"
    using clock same by simp
  have hist: "status_history db'
         = map (\<lambda>h. if sh_application_id h = aid
                        \<and> list_all (\<lambda>h'. sh_application_id h' = aid
                                          \<longrightarrow> sh_created_at h' \<le> sh_created_at h)
                             (status_history db)
                        \<and> now \<le> sh_created_at h
                     then h\<lparr>sh_trigger_type := email_auto, sh_trigger_email_id := Some eid\<rparr>
                     else h) (status_history db)
           @ [\<lparr>sh_application_id = aid, sh_from_status = Some (app_status app),
               sh_to_status = new, sh_trigger_type = email_auto,
               sh_trigger_email_id = Some eid, sh_created_at = now\<rparr>]"
    using history_after_update [OF get_application_Inr [OF app] changed clock1, of conf eid]
    by (simp add: db' new(1) auto_type same)
  show ?thesis
    unfolding hist using new(1) by auto
qed

theorem history_trigger_is_email_auto_witness:
  "processEmail (example_model INTERVIEW_REQUEST 0.75) 50 None example_db_tracked 1 stripe_email
     = Inr (Processed 100 8 INTERVIEW_REQUEST 0.75 True (Some INTERVIEWING) True,
            example_db_tracked_interviewing)
   \<and> map sh_application_id (status_history example_db_tracked) = [8]
   \<and> map sh_created_at (status_history example_db_tracked) = [30]
   \<and> (\<exists>h \<in> set (status_history example_db_tracked_interviewing).
         sh_application_id h = 8 \<and> sh_to_status h = INTERVIEWING \<and> sh_created_at h = 50
       \<and> sh_trigger_type h = email_auto \<and> sh_trigger_email_id h = Some 100)
   \<and> map sh_trigger_type (status_history example_db_tracked_interviewing)
       = [manual, email_auto]"
proof -
  have hist: "map sh_application_id (status_history example_db_tracked) = [8]"
    "map sh_created_at (status_history example_db_tracked) = [30]"
    by (simp_all add: example_db_tracked_def)
  have clock: "\<forall>h \<in> set (status_history example_db_tracked).
                 sh_application_id h = 8 \<longrightarrow> sh_created_at h \<le> 50"
    by (simp add: example_db_tracked_def)
  have "\<exists>h \<in> set (status_history example_db_tracked_interviewing).
          sh_application_id h = 8 \<and> Some (sh_to_status h) = Some INTERVIEWING
        \<and> sh_created_at h = 50
        \<and> sh_trigger_type h = email_auto \<and> sh_trigger_email_id h = Some 100"
    using history_trigger_is_email_auto [OF run_tracked clock] by (rule conjunct1)
  then have "\<exists>h \<in> set (status_history example_db_tracked_interviewing).
          sh_application_id h = 8 \<and> sh_to_status h = INTERVIEWING \<and> sh_created_at h = 50
        \<and> sh_trigger_type h = email_auto \<and> sh_trigger_email_id h = Some 100"
    by simp
  moreover have "map sh_trigger_type (status_history example_db_tracked_interviewing)
       = [manual, email_auto]"
    by (simp add: example_db_tracked_interviewing_def)
  ultimately show ?thesis
    using run_tracked hist by simp
qed

section \<open>The Matcher on a sender address without an at sign\<close>

lemma rmatch_at_sign_fails:
  "rest = [] \<or> hd rest \<noteq> CHR ''@'' \<Longrightarrow> rmatch False (Seq (Lit ''@'' # rs)) (seen, rest, cap) = []"
  by (cases rest) (auto simp: sameChar_def)

lemma search_at_sign_fails:
  "CHR ''@'' \<notin> set rest \<Longrightarrow> search False (Seq (Lit ''@'' # rs)) seen rest = None"
proof (induction rest arbitrary: seen)
  case Nil
  show ?case
    by (subst search.simps) (simp add: rmatch_at_sign_fails del: rmatch.simps)
next
  case (Cons c rest)
  then have "rmatch False (Seq (Lit ''@'' # rs)) (seen, c # rest, None) = []"
    by (intro rmatch_at_sign_fails) auto
  with Cons show ?case
    by (subst search.simps) (simp del: rmatch.simps search.simps)
qed

lemma extractDomain_without_at_sign:
  "CHR ''@'' \<notin> set s \<Longrightarrow> extractDomain s = []"
  by (simp add: extractDomain_def match1_def search_at_sign_fails del: search.simps)

lemma extractCompanyLoop_empty_domain:
  "extractCompanyLoop ATS_PATTERNS [] email = None"
  by (simp add: ATS_PATTERNS_def)

lemma ilike_percent: "ilike t ''%''"
  by (induction t) auto

lemma ilike_percent_percent: "ilike t ''%%''"
  using ilike_percent [of t] by simp

lemma findApplicationByDomain_empty:
  "findApplicationByDomain db userId [] = selectByCompanyName db userId ''%%''"
  by (simp add: findApplicationByDomain_def atsDomains_def companySlugOf_def Let_def)

lemma le_last_of_sorted: "sorted (xs :: nat list) \<Longrightarrow> x \<in> set xs \<Longrightarrow> x \<le> last xs"
  by (induction xs) auto

lemma latest_of_nonempty:
  assumes "rows \<noteq> []"
  shows "\<exists>a \<in> set rows. (\<forall>b \<in> set rows. app_created_at b \<le> app_created_at a)
            \<and> take 1 (order_created_at_desc rows) = [a]"
proof -
  let ?ys = "sort_key app_created_at rows"
  have ne: "?ys \<noteq> []"
    using assms by (metis length_0_conv length_sort)
  have srt: "sorted (map app_created_at ?ys)"
    by simp
  have mx: "app_created_at b \<le> app_created_at (last ?ys)" if "b \<in> set rows" for b
  proof -
    have "app_created_at b \<in> set (map app_created_at ?ys)"
      using that by simp
    then have "app_created_at b \<le> last (map app_created_at ?ys)"
      using srt le_last_of_sorted by blast
    then show ?thesis
      using ne by (simp add: last_map)
  qed
  have "last ?ys \<in> set rows"
    using ne last_in_set [of ?ys] by simp
  moreover have "take 1 (order_created_at_desc rows) = [last ?ys]"
    using ne by (cases "rev ?ys") (auto simp: order_created_at_desc_def)
  ultimately show ?thesis
    using mx by blast
qed

lemma no_at_email_match:
  "matchEmailToApplication example_db 1 no_at_email =
     \<lparr>applicationId = Some 8, companyName = Some ''Stripe'', match_confidence = 0.95,
      matchType = match_domain\<rparr>"
  by code_simp

text \<open>
  C10. For every email whose sender address contains no at sign, \<open>extractDomain\<close>
  gives the empty string and the ATS extraction gives no company; the direct domain
  strategy then filters the company names with the pattern \<^verbatim>\<open>%%\<close>, which every
  name matches. So for a user with at least one application the Matcher returns an
  application of the user that no other application of the user is newer than, with
  confidence 0.95 and match type \<open>match_domain\<close>.
\<close>

theorem sender_without_at_sign_matches_latest_application:
  assumes "CHR ''@'' \<notin> set (email_from email)"
    and "\<exists>a \<in> set (applications db). app_user_id a = userId"
  shows "extractDomain (email_from email) = []
       \<and> extractCompanyFromATS email = None
       \<and> (\<exists>a \<in> set (applications db).
             app_user_id a = userId
           \<and> (\<forall>b \<in> set (applications db).
                 app_user_id b = userId \<longrightarrow> app_created_at b \<le> app_created_at a)
           \<and> matchEmailToApplication db userId email =
               \<lparr>applicationId = Some (app_id a), companyName = Some (app_company_name a),
                match_confidence = 0.95, matchType = match_domain\<rparr>)"
proof -
  let ?rows = "filter (\<lambda>a. app_user_id a = userId) (applications db)"
  have dom: "extractDomain (email_from email) = []"
    using assms(1) by (rule extractDomain_without_at_sign)
  have atsNone: "extractCompanyFromATS email = None"
    by (simp add: extractCompanyFromATS_def dom extractCompanyLoop_empty_domain)
  have "?rows \<noteq> []"
    using assms(2) by (auto simp: filter_empty_conv)
  from latest_of_nonempty [OF this] obtain a where
    a: "a \<in> set ?rows" "\<forall>b \<in> set ?rows. app_created_at b \<le> app_created_at a"
       "take 1 (order_created_at_desc ?rows) = [a]"
    by blast
  have sel: "selectByCompanyName db userId ''%%'' = Some (app_id a, app_company_name a)"
    using a(3) ilike_percent_percent by (simp add: selectByCompanyName_def)
  have "matchEmailToApplication db userId email =
          \<lparr>applicationId = Some (app_id a), companyName = Some (app_company_name a),
           match_confidence = 0.95, matchType = match_domain\<rparr>"
    by (simp add: matchEmailToApplication_def atsNone truthy_def dom
                  findApplicationByDomain_empty sel)
  with a(1,2) dom atsNone show ?thesis
    by auto
qed

theorem sender_without_at_sign_matches_latest_application_witness:
  "CHR ''@'' \<notin> set (email_from no_at_email)
   \<and> (\<exists>a \<in> set (applications example_db). app_user_id a = 1)
   \<and> extractDomain (email_from no_at_email) = []
   \<and> extractCompanyFromATS no_at_email = None
   \<and> matchEmailToApplication example_db 1 no_at_email =
       \<lparr>applicationId = Some 8, companyName = Some ''Stripe'', match_confidence = 0.95,
        matchType = match_domain\<rparr>"
proof -
  have h1: "CHR ''@'' \<notin> set (email_from no_at_email)"
    by (simp add: no_at_email_def example_email_def)
  have h2: "\<exists>a \<in> set (applications example_db). app_user_id a = 1"
    by (simp add: example_db_def)
  from sender_without_at_sign_matches_latest_application [OF h1 h2]
  have "extractDomain (email_from no_at_email) = []"
    and "extractCompanyFromATS no_at_email = None"
    by simp_all
  with h1 h2 no_at_email_match show ?thesis
    by simp
qed

section \<open>The Orchestrator on an unmatched email\<close>



lemma set_order_created_at_desc [simp]:
  "set (order_created_at_desc rows) = set rows"
  by (simp add: order_created_at_desc_def)


lemma classifyEmail_Inr:
  "receivedAt email = ValidDate isoText \<Longrightarrow> \<exists>c. classifyEmail g email = Inr c"
  by (simp add: classifyEmail_def formatEmailForClassification_def split: sum.split)







section \<open>Running the Orchestrator again on the same email\<close>

lemma insort_key_map_same_key:
  assumes "\<And>a. k (f a) = k a"
  shows "insort_key k (f x) (map f xs) = map f (insort_key k x xs)"
  by (induction xs) (simp_all add: assms)

lemma sort_key_map_same_key:
  assumes "\<And>a. k (f a) = k a"
  shows "sort_key k (map f xs) = map f (sort_key k xs)"
  by (induction xs) (simp_all add: insort_key_map_same_key [of k f, OF assms])

lemma single_map: "single (map f xs) = map_option f (single xs)"
  by (cases xs rule: single.cases) simp_all

lemma selectByCompanyName_cong:
  assumes apps: "applications db' = map f (applications db)"
    and id: "\<And>a. app_id (f a) = app_id a"
    and user: "\<And>a. app_user_id (f a) = app_user_id a"
    and name: "\<And>a. app_company_name (f a) = app_company_name a"
    and created: "\<And>a. app_created_at (f a) = app_created_at a"
  shows "selectByCompanyName db' userId pattern = selectByCompanyName db userId pattern"
proof -
  let ?P = "\<lambda>a. app_user_id a = userId \<and> ilike (app_company_name a) pattern"
  have 1: "filter ?P (map f (applications db)) = map f (filter ?P (applications db))"
    by (simp add: filter_map comp_def user name)
  have 2: "order_created_at_desc (map f xs) = map f (order_created_at_desc xs)" for xs
    by (simp add: order_created_at_desc_def sort_key_map_same_key [of app_created_at f, OF created]
                  rev_map)
  have 3: "(\<lambda>a. (app_id a, app_company_name a)) \<circ> f = (\<lambda>a. (app_id a, app_company_name a))"
    by (simp add: fun_eq_iff id name)
  show ?thesis
    by (simp add: selectByCompanyName_def apps 1 2 take_map single_map option.map_comp 3)
qed

lemma matchEmailToApplication_cong:
  assumes apps: "applications db' = map f (applications db)"
    and id: "\<And>a. app_id (f a) = app_id a"
    and user: "\<And>a. app_user_id (f a) = app_user_id a"
    and name: "\<And>a. app_company_name (f a) = app_company_name a"
    and created: "\<And>a. app_created_at (f a) = app_created_at a"
  shows "matchEmailToApplication db' userId email = matchEmailToApplication db userId email"
proof -
  note sel = selectByCompanyName_cong [OF apps id user name created]
  have byName: "findApplicationByCompanyName db' userId = findApplicationByCompanyName db userId"
    by (simp add: fun_eq_iff findApplicationByCompanyName_def sel split: option.split)
  have byDomain: "findApplicationByDomain db' userId = findApplicationByDomain db userId"
    by (simp add: fun_eq_iff findApplicationByDomain_def sel)
  show ?thesis
    unfolding matchEmailToApplication_def byName byDomain ..
qed

lemma processEmail_Unmatched:
  assumes "processEmail g now historyError db userId email = Inr (Unmatched eid cls conf, db')"
  shows "\<exists>c rec db1.
           classifyEmail g email = Inr c
         \<and> applicationId (matchEmailToApplication db userId email) = None
         \<and> create_email_record db userId email (matchEmailToApplication db userId email) c
             = Inr (rec, db1)
         \<and> db' = create_unmatched_record db1 userId email rec"
  using assms
  by (auto simp: processEmail_def Let_def split: sum.splits option.splits prod.splits)

lemma newStatus_is_target:
  "newStatus (getStatusTransition cls conf s) = Some t \<Longrightarrow> CLASSIFICATION_TO_STATUS cls = Some t"
  by (auto simp: getStatusTransition_def Let_def split: option.splits if_splits)

lemma shouldUpdate_target:
  "shouldUpdate (getStatusTransition cls conf s) \<Longrightarrow>
     \<exists>t. CLASSIFICATION_TO_STATUS cls = Some t \<and> t \<in> set (VALID_TRANSITIONS s)"
  by (auto simp: getStatusTransition_def Let_def split: option.splits if_splits)

lemma rerun_unmatched:
  assumes "applicationId (matchEmailToApplication D userId email) = None"
    and "userId \<in> set (users D)"
    and "receivedAt email = ValidDate isoText"
  shows "\<exists>res db2. processEmail g now historyError D userId email = Inr (res, db2)
           \<and> length (application_emails db2) = Suc (length (application_emails D))
           \<and> applications db2 = applications D
           \<and> status_history db2 = status_history D"
proof -
  obtain c where c: "classifyEmail g email = Inr c"
    using classifyEmail_Inr [OF assms(3)] by blast
  show ?thesis
    using assms
    by (simp add: processEmail_def c create_email_record_def create_unmatched_record_def
                  Let_def)
qed

lemma rerun_matched_no_update:
  assumes m: "applicationId (matchEmailToApplication D userId email) = Some aid"
    and u: "userId \<in> set (users D)"
    and c: "classifyEmail g email = Inr c"
    and d: "receivedAt email = ValidDate isoText"
    and one: "filter (\<lambda>a. app_id a = aid) (applications D) = [app]"
    and no: "\<not> (shouldUpdate (getStatusTransition (cls_type c) (cls_confidence c) (app_status app))
               \<and> newStatus (getStatusTransition (cls_type c) (cls_confidence c) (app_status app))
                   \<noteq> None)"
  shows "\<exists>res db2. processEmail g now historyError D userId email = Inr (res, db2)
           \<and> length (application_emails db2) = Suc (length (application_emails D))
           \<and> applications db2 = applications D
           \<and> status_history db2 = status_history D"
proof -
  let ?T = "getStatusTransition (cls_type c) (cls_confidence c) (app_status app)"
  show ?thesis
  proof (cases "newStatus ?T")
    case None
    then show ?thesis
      using m u one d
      by (simp add: processEmail_def c create_email_record_def get_application_def Let_def)
  next
    case (Some new)
    with no have "\<not> shouldUpdate ?T" by simp
    with Some show ?thesis
      using m u one d
      by (simp add: processEmail_def c create_email_record_def get_application_def Let_def)
  qed
qed

lemma filter_set_status:
  "filter (\<lambda>a. app_id a = aid)
     (map (\<lambda>a. if app_id a = aid then a\<lparr>app_status := new\<rparr> else a) xs)
   = map (\<lambda>a. if app_id a = aid then a\<lparr>app_status := new\<rparr> else a)
       (filter (\<lambda>a. app_id a = aid) xs)"
  by (induction xs) simp_all

lemma update_application_status_fields:
  "users (update_application_status now historyError db aid new conf eid) = users db"
  "application_emails (update_application_status now historyError db aid new conf eid) = application_emails db"
  "applications (update_application_status now historyError db aid new conf eid)
     = map (\<lambda>a. if app_id a = aid then a\<lparr>app_status := new\<rparr> else a) (applications db)"
  by (simp_all add: update_application_status_def Let_def)

lemma rerun_095:
  "processEmail (example_model INTERVIEW_REQUEST 0.95) 60 None (example_db_interviewing 0.95) 1
     stripe_email =
     Inr (Processed 101 8 INTERVIEW_REQUEST 0.95 False None True, example_db_rerun)"
  by code_simp

text \<open>
  C4, as stated: running the pipeline again for the same inbound message, after a run
  that succeeded, creates no further email record, because the writes are keyed on the
  message's identifier. The event carries no message identifier and the email record is
  written by a plain insert: the second run of the example adds a second record of the
  same email.
\<close>

theorem rerun_is_idempotent_counterexample:
  "processEmail (example_model INTERVIEW_REQUEST 0.95) 50 None example_db 1 stripe_email =
     Inr (Processed 100 8 INTERVIEW_REQUEST 0.95 True (Some INTERVIEWING) False,
          example_db_interviewing 0.95)
   \<and> processEmail (example_model INTERVIEW_REQUEST 0.95) 60 None (example_db_interviewing 0.95) 1
       stripe_email =
     Inr (Processed 101 8 INTERVIEW_REQUEST 0.95 False None True, example_db_rerun)
   \<and> length (application_emails (example_db_interviewing 0.95)) = 1
   \<and> length (application_emails example_db_rerun) = 2
   \<and> map ae_subject (application_emails example_db_rerun)
       = [''Interview invitation'', ''Interview invitation'']"
  using run_095 rerun_095
  by (simp add: example_db_rerun_def example_db_interviewing_def)

text \<open>
  C4, amended: running the pipeline again on the database a successful run has left,
  for the same user and email and with the model call answering as before, succeeds and
  adds exactly one more email record; it leaves every application, and so every status,
  as it is and adds no history entry.
\<close>

theorem rerun_adds_email_record_only:
  assumes run1: "processEmail g now historyError db userId email = Inr (res1, db1)"
  shows "\<exists>res2 db2. processEmail g now' historyError' db1 userId email = Inr (res2, db2)
           \<and> length (application_emails db2) = Suc (length (application_emails db1))
           \<and> applications db2 = applications db1
           \<and> status_history db2 = status_history db1"
proof (cases res1)
  case (Unmatched eid cls conf)
  from processEmail_Unmatched [OF run1 [unfolded Unmatched]] obtain c rec dbr where
    none: "applicationId (matchEmailToApplication db userId email) = None"
    and rec: "create_email_record db userId email (matchEmailToApplication db userId email) c
                = Inr (rec, dbr)"
    and db1: "db1 = create_unmatched_record dbr userId email rec"
    by blast
  note r = create_email_record_Inr [OF rec]
  from r obtain isoText where isoText: "receivedAt email = ValidDate isoText"
    by blast
  have apps: "applications db1 = map (\<lambda>a. a) (applications db)"
    using r by (simp add: db1 create_unmatched_record_def Let_def)
  have user: "userId \<in> set (users db1)"
    using r by (simp add: db1 create_unmatched_record_def Let_def)
  have "matchEmailToApplication db1 userId email = matchEmailToApplication db userId email"
    using apps by (rule matchEmailToApplication_cong) simp_all
  with none have "applicationId (matchEmailToApplication db1 userId email) = None"
    by simp
  then show ?thesis
    using user isoText by (rule rerun_unmatched)
next
  case (Processed eid aid cls conf upd ns nr)
  from processEmail_Processed [OF run1 [unfolded Processed]] obtain c rec dbr app where
    c: "classifyEmail g email = Inr c"
    and cls: "cls = cls_type c" and conf: "conf = cls_confidence c"
    and some: "applicationId (matchEmailToApplication db userId email) = Some aid"
    and rec: "create_email_record db userId email (matchEmailToApplication db userId email) c
                = Inr (rec, dbr)"
    and app: "get_application dbr aid = Inr app"
    and upd: "upd = shouldUpdate (getStatusTransition cls conf (app_status app))"
    and ns: "ns = newStatus (getStatusTransition cls conf (app_status app))"
    and db1: "db1 = (case ns of
                       Some new \<Rightarrow> if upd then update_application_status now historyError dbr aid new conf eid
                                   else dbr
                     | None \<Rightarrow> dbr)"
    by blast
  note r = create_email_record_Inr [OF rec]
  from r obtain isoText where isoText: "receivedAt email = ValidDate isoText"
    by blast
  have one: "filter (\<lambda>a. app_id a = aid) (applications db) = [app]"
    using get_application_Inr [OF app] r by simp
  show ?thesis
  proof (cases "upd \<and> ns \<noteq> None")
    case False
    then have same: "db1 = dbr"
      by (auto simp: db1 split: option.splits)
    have apps: "applications db1 = map (\<lambda>a. a) (applications db)"
      using r by (simp add: same)
    have user: "userId \<in> set (users db1)"
      using r by (simp add: same)
    have "matchEmailToApplication db1 userId email = matchEmailToApplication db userId email"
      using apps by (rule matchEmailToApplication_cong) simp_all
    with some have m: "applicationId (matchEmailToApplication db1 userId email) = Some aid"
      by simp
    have one1: "filter (\<lambda>a. app_id a = aid) (applications db1) = [app]"
      using one apps by simp
    have no: "\<not> (shouldUpdate (getStatusTransition (cls_type c) (cls_confidence c) (app_status app))
               \<and> newStatus (getStatusTransition (cls_type c) (cls_confidence c) (app_status app))
                   \<noteq> None)"
      using False by (simp add: upd ns cls conf)
    show ?thesis
      by (rule rerun_matched_no_update [OF m user c isoText one1 no])
  next
    case True
    then obtain new where new: "ns = Some new" and updT: "upd"
      by auto
    let ?f = "\<lambda>a. if app_id a = aid then a\<lparr>app_status := new\<rparr> else a"
    have db1': "db1 = update_application_status now historyError dbr aid new conf eid"
      by (simp add: db1 new updT)
    have apps: "applications db1 = map ?f (applications db)"
      using r by (simp add: db1' update_application_status_fields)
    have user: "userId \<in> set (users db1)"
      using r by (simp add: db1' update_application_status_fields)
    have "matchEmailToApplication db1 userId email = matchEmailToApplication db userId email"
      using apps by (rule matchEmailToApplication_cong) simp_all
    with some have m: "applicationId (matchEmailToApplication db1 userId email) = Some aid"
      by simp
    have app_aid: "app_id app = aid"
    proof -
      have "app \<in> set (filter (\<lambda>a. app_id a = aid) (applications db))"
        using one by simp
      then show ?thesis by simp
    qed
    have one1: "filter (\<lambda>a. app_id a = aid) (applications db1) = [app\<lparr>app_status := new\<rparr>]"
      using one app_aid by (simp add: apps filter_set_status)
    have target: "CLASSIFICATION_TO_STATUS (cls_type c) = Some new"
      using new ns newStatus_is_target cls by metis
    have no: "\<not> (shouldUpdate (getStatusTransition (cls_type c) (cls_confidence c)
                     (app_status (app\<lparr>app_status := new\<rparr>)))
               \<and> newStatus (getStatusTransition (cls_type c) (cls_confidence c)
                     (app_status (app\<lparr>app_status := new\<rparr>))) \<noteq> None)"
    proof
      assume "shouldUpdate (getStatusTransition (cls_type c) (cls_confidence c)
                     (app_status (app\<lparr>app_status := new\<rparr>)))
               \<and> newStatus (getStatusTransition (cls_type c) (cls_confidence c)
                     (app_status (app\<lparr>app_status := new\<rparr>))) \<noteq> None"
      then have "shouldUpdate (getStatusTransition (cls_type c) (cls_confidence c) new)"
        by simp
      from shouldUpdate_target [OF this] target have "new \<in> set (VALID_TRANSITIONS new)"
        by simp
      then show False
        using no_self_transition by blast
    qed
    show ?thesis
      by (rule rerun_matched_no_update [OF m user c isoText one1 no])
  qed
qed

theorem rerun_adds_email_record_only_witness:
  "processEmail (example_model INTERVIEW_REQUEST 0.95) 50 None example_db 1 stripe_email =
     Inr (Processed 100 8 INTERVIEW_REQUEST 0.95 True (Some INTERVIEWING) False,
          example_db_interviewing 0.95)
   \<and> processEmail (example_model INTERVIEW_REQUEST 0.95) 60 None (example_db_interviewing 0.95) 1
       stripe_email =
     Inr (Processed 101 8 INTERVIEW_REQUEST 0.95 False None True, example_db_rerun)
   \<and> length (application_emails example_db_rerun)
       = Suc (length (application_emails (example_db_interviewing 0.95)))
   \<and> applications example_db_rerun = applications (example_db_interviewing 0.95)
   \<and> status_history example_db_rerun = status_history (example_db_interviewing 0.95)"
proof -
  from rerun_adds_email_record_only [OF run_095, of 60 None]
  obtain res2 db2 where
    r: "processEmail (example_model INTERVIEW_REQUEST 0.95) 60 None (example_db_interviewing 0.95) 1
          stripe_email = Inr (res2, db2)"
    and l: "length (application_emails db2)
              = Suc (length (application_emails (example_db_interviewing 0.95)))"
    and a: "applications db2 = applications (example_db_interviewing 0.95)"
    and h: "status_history db2 = status_history (example_db_interviewing 0.95)"
    by (elim exE conjE)
  have "db2 = example_db_rerun"
    using r unfolding rerun_095 by simp
  with l a h run_095 rerun_095 show ?thesis
    by simp
qed

end
